theory Spec2Isabelle
  imports Main "HOL-Library.Word" "HOL-Library.Char_ord" "HOL-Library.List_Lexorder"
begin

unbundle bit_operations_syntax

section \<open>Python values and library functions used by the validators\<close>

text \<open>
  A Python \<open>str\<close> is modelled as a \<open>string\<close>: the list of its code points, each below 256.
  \<open>len\<close> is \<open>length\<close>. An exception is a value \<open>Raised msg\<close>, where \<open>msg\<close> is \<open>str(e)\<close>;
  a function of the source that can raise returns a sum whose left summand is the exception.
\<close>

datatype py_exn = Raised string

text \<open>
  The functions of the Python runtime that the repository calls and that are not repository
  code are the fields of a record: \<open>re.match(p, s) is not None\<close> (or \<open>re.error\<close>), the value of
  \<open>float(s)\<close> for a well-formed literal, the comparison of that float with a bound of the
  manifest, the text of a bound in an f-string, and \<open>sys.get_int_max_str_digits()\<close> (0: no limit).
\<close>

record ('f, 'n) pylib =
  re_match :: "string \<Rightarrow> string \<Rightarrow> py_exn + bool"
  float_of :: "string \<Rightarrow> 'f"
  float_lt :: "'f \<Rightarrow> 'n \<Rightarrow> bool"
  float_gt :: "'f \<Rightarrow> 'n \<Rightarrow> bool"
  num_str :: "'n \<Rightarrow> string"
  int_max_str_digits :: nat

definition py_space :: "char \<Rightarrow> bool" where
  "py_space c = (of_char c \<in> {9, 10, 11, 12, 13, 32, 133, 160 :: nat})"

definition py_strip :: "string \<Rightarrow> string" where
  "py_strip s = rev (dropWhile py_space (rev (dropWhile py_space s)))"

definition is_digit :: "char \<Rightarrow> bool" where
  "is_digit c = (48 \<le> (of_char c :: nat) \<and> (of_char c :: nat) \<le> 57)"

text \<open>\<open>digit (["_"] digit)*\<close>: the digits, without the underscores.\<close>

fun digitpart :: "string \<Rightarrow> string option" where
  "digitpart [] = None"
| "digitpart (c # cs) =
     (if is_digit c then
        (case cs of
           [] \<Rightarrow> Some [c]
         | d # ds \<Rightarrow>
             (if d = CHR ''_'' then map_option ((#) c) (digitpart ds)
              else map_option ((#) c) (digitpart cs)))
      else None)"

definition dec_value :: "string \<Rightarrow> nat" where
  "dec_value ds = fold (\<lambda>c n. 10 * n + (of_char c - 48)) ds 0"

definition split_sign :: "string \<Rightarrow> bool \<times> string" where
  "split_sign t =
     (case t of
        [] \<Rightarrow> (False, [])
      | c # r \<Rightarrow> if c = CHR ''+'' then (False, r) else if c = CHR ''-'' then (True, r) else (False, t))"

text \<open>The literals \<open>int\<close> accepts: after stripping, an optional sign and a \<open>digitpart\<close>.
  The result is the sign (\<open>True\<close>: negative) and the digits.\<close>

definition int_literal :: "string \<Rightarrow> (bool \<times> string) option" where
  "int_literal s =
     (case split_sign (py_strip s) of
        (neg, body) \<Rightarrow> map_option (Pair neg) (digitpart body))"

text \<open>\<open>int(s)\<close> for a string: \<open>None\<close> is \<open>ValueError\<close>. A literal of more
  than 640 digits is refused when it has more digits than the interpreter's limit.\<close>

definition py_int :: "('f, 'n) pylib \<Rightarrow> string \<Rightarrow> int option" where
  "py_int L s =
     (case int_literal s of
        None \<Rightarrow> None
      | Some (neg, ds) \<Rightarrow>
          if 640 < length ds \<and> 0 < int_max_str_digits L \<and> int_max_str_digits L < length ds
          then None
          else Some (if neg then - int (dec_value ds) else int (dec_value ds)))"

definition py_lower_char :: "char \<Rightarrow> char" where
  "py_lower_char c =
     (if 65 \<le> (of_char c :: nat) \<and> (of_char c :: nat) \<le> 90 then char_of (of_char c + 32 :: nat) else c)"

definition py_upper_char :: "char \<Rightarrow> char" where
  "py_upper_char c =
     (if 97 \<le> (of_char c :: nat) \<and> (of_char c :: nat) \<le> 122 then char_of (of_char c - 32 :: nat) else c)"

text \<open>\<open>str.lower\<close> and \<open>str.upper\<close>, on ASCII text (other characters are left as they are).\<close>

definition py_lower :: "string \<Rightarrow> string" where
  "py_lower s = map py_lower_char s"

definition py_upper :: "string \<Rightarrow> string" where
  "py_upper s = map py_upper_char s"

text \<open>
  The literals \<open>float\<close> accepts: after stripping, an optional sign, then \<open>inf\<close>, \<open>infinity\<close> or
  \<open>nan\<close> in any case, or \<open>number [exponent]\<close> with
  \<open>number ::= [digitpart] "." digitpart | digitpart ["."]\<close> and
  \<open>exponent ::= ("e" | "E") [sign] digitpart\<close>.
\<close>

definition is_exp_char :: "char \<Rightarrow> bool" where
  "is_exp_char c = (c = CHR ''e'' \<or> c = CHR ''E'')"

definition float_number :: "string \<Rightarrow> bool" where
  "float_number m =
     (let ip = takeWhile (\<lambda>c. c \<noteq> CHR ''.'') m;
          rest = dropWhile (\<lambda>c. c \<noteq> CHR ''.'') m
      in case rest of
           [] \<Rightarrow> digitpart ip \<noteq> None
         | dot # fp \<Rightarrow>
             ((ip = [] \<or> digitpart ip \<noteq> None) \<and> digitpart fp \<noteq> None)
             \<or> (digitpart ip \<noteq> None \<and> fp = []))"

definition float_exponent :: "string \<Rightarrow> bool" where
  "float_exponent x = (digitpart (snd (split_sign x)) \<noteq> None)"

definition float_literal :: "string \<Rightarrow> bool" where
  "float_literal s =
     (let body = snd (split_sign (py_strip s)) in
      if py_lower body \<in> set [''inf'', ''infinity'', ''nan''] then True
      else
        (let m = takeWhile (\<lambda>c. \<not> is_exp_char c) body;
             rest = dropWhile (\<lambda>c. \<not> is_exp_char c) body
         in case rest of
              [] \<Rightarrow> float_number m
            | e # x \<Rightarrow> float_number m \<and> float_exponent x))"

text \<open>\<open>float(s)\<close> for a string: \<open>None\<close> is \<open>ValueError\<close>.\<close>

definition py_float :: "('f, 'n) pylib \<Rightarrow> string \<Rightarrow> 'f option" where
  "py_float L s = (if float_literal s then Some (float_of L s) else None)"

text \<open>\<open>str(n)\<close> for an integer, and \<open>sep.join(xs)\<close>.\<close>

fun string_of_nat :: "nat \<Rightarrow> string" where
  "string_of_nat n =
     (if n < 10 then [char_of (48 + n)]
      else string_of_nat (n div 10) @ [char_of (48 + n mod 10)])"

declare string_of_nat.simps [simp del]

definition py_str_int :: "int \<Rightarrow> string" where
  "py_str_int i = (if i < 0 then CHR ''-'' # string_of_nat (nat (- i)) else string_of_nat (nat i))"

fun py_join :: "string \<Rightarrow> string list \<Rightarrow> string" where
  "py_join sep [] = []"
| "py_join sep [x] = x"
| "py_join sep (x # y # ys) = x @ sep @ py_join sep (y # ys)"

text \<open>
  A Python \<open>dict\<close> with string keys is an association list in insertion order, its keys
  distinct. \<open>k in d\<close> and \<open>d.get(k)\<close> read it through \<open>map_of\<close>; \<open>d[k] = v\<close> replaces the
  value of a key that is present, in place, and appends a new key.
\<close>

type_synonym 'v py_dict = "(string \<times> 'v) list"

fun dict_set :: "'v py_dict \<Rightarrow> string \<Rightarrow> 'v \<Rightarrow> 'v py_dict" where
  "dict_set [] k v = [(k, v)]"
| "dict_set ((k', v') # d) k v = (if k' = k then (k, v) # d else (k', v') # dict_set d k v)"

definition dict_get :: "'v py_dict \<Rightarrow> string \<Rightarrow> 'v \<Rightarrow> 'v" where
  "dict_get d k dflt = (case map_of d k of None \<Rightarrow> dflt | Some v \<Rightarrow> v)"

section \<open>The manifest (shared/schema.py)\<close>

text \<open>
  In \<open>validation\<close> and \<open>input_field\<close>, \<open>None\<close> is a key that the manifest does not have.
  \<open>name\<close>, \<open>type\<close> and \<open>label\<close> are the fields the schema requires of every input.
\<close>

record 'n validation =
  pattern :: "string option"
  min_length :: "int option"
  max_length :: "int option"
  min_value :: "'n option"
  max_value :: "'n option"
  allowed_values :: "string list option"

record 'n input_field =
  name :: string
  type :: string
  label :: string
  required :: "bool option"
  default :: "string option"
  validation :: "'n validation option"
  visible_if :: "string py_dict option"

record 'n manifest =
  inputs :: "'n input_field list"
  install_script :: "string option"
  timeout_seconds :: "int option"

definition no_validation :: "'n validation" where
  "no_validation =
     \<lparr>pattern = None, min_length = None, max_length = None,
      min_value = None, max_value = None, allowed_values = None\<rparr>"

text \<open>\<open>field.get('required', True)\<close> and \<open>field.get('validation', {})\<close>.\<close>

definition get_required :: "'n input_field \<Rightarrow> bool" where
  "get_required f = (case required f of None \<Rightarrow> True | Some b \<Rightarrow> b)"

definition get_validation :: "'n input_field \<Rightarrow> 'n validation" where
  "get_validation f = (case validation f of None \<Rightarrow> no_validation | Some v \<Rightarrow> v)"

section \<open>The control plane's validator (panel/app.py, InputValidator)\<close>

text \<open>
  One check of \<open>validate_field\<close>: it raises, or returns the error message of a failed check,
  or \<open>None\<close> when the check passes and the function goes on.
\<close>

type_synonym check = "py_exn + string option"

definition and_then :: "check \<Rightarrow> (py_exn + bool \<times> string option) \<Rightarrow> py_exn + bool \<times> string option" where
  "and_then c k =
     (case c of
        Inl e \<Rightarrow> Inl e
      | Inr (Some msg) \<Rightarrow> Inr (False, Some msg)
      | Inr None \<Rightarrow> k)"

definition backslash :: char where
  "backslash = CHR 0x5C"

definition email_pattern :: string where
  "email_pattern = ''^[a-zA-Z0-9._%+-]+@[a-zA-Z0-9.-]+'' @ [backslash] @ ''.[a-zA-Z]{2,}$''"

definition type_check :: "('f, 'n) pylib \<Rightarrow> 'n input_field \<Rightarrow> string \<Rightarrow> check" where
  "type_check L f v =
     (if type f = ''integer'' then
        (case py_int L v of
           None \<Rightarrow> Inr (Some (label f @ '' must be an integer''))
         | Some int_val \<Rightarrow> Inr None)
      else if type f = ''port'' then
        (case py_int L v of
           None \<Rightarrow> Inr (Some (label f @ '' must be a valid port number''))
         | Some port \<Rightarrow>
             if \<not> (1 \<le> port \<and> port \<le> 65535)
             then Inr (Some (label f @ '' must be between 1 and 65535''))
             else Inr None)
      else if type f = ''email'' then
        (case re_match L email_pattern v of
           Inl e \<Rightarrow> Inl e
         | Inr m \<Rightarrow> if \<not> m then Inr (Some (label f @ '' must be a valid email'')) else Inr None)
      else if type f = ''boolean'' then
        (if py_lower v \<notin> set [''true'', ''false'', ''1'', ''0'', ''yes'', ''no'']
         then Inr (Some (label f @ '' must be true or false''))
         else Inr None)
      else Inr None)"

definition pattern_check :: "('f, 'n) pylib \<Rightarrow> 'n input_field \<Rightarrow> string \<Rightarrow> check" where
  "pattern_check L f v =
     (case pattern (get_validation f) of
        None \<Rightarrow> Inr None
      | Some p \<Rightarrow>
          (case re_match L p v of
             Inl e \<Rightarrow> Inl e
           | Inr m \<Rightarrow> if \<not> m then Inr (Some (label f @ '' format is invalid'')) else Inr None))"

definition min_length_check :: "'n input_field \<Rightarrow> string \<Rightarrow> check" where
  "min_length_check f v =
     (case min_length (get_validation f) of
        None \<Rightarrow> Inr None
      | Some n \<Rightarrow>
          if int (length v) < n
          then Inr (Some (label f @ '' must be at least '' @ py_str_int n @ '' characters''))
          else Inr None)"

definition max_length_check :: "'n input_field \<Rightarrow> string \<Rightarrow> check" where
  "max_length_check f v =
     (case max_length (get_validation f) of
        None \<Rightarrow> Inr None
      | Some n \<Rightarrow>
          if n < int (length v)
          then Inr (Some (label f @ '' must be at most '' @ py_str_int n @ '' characters''))
          else Inr None)"

definition min_value_check :: "('f, 'n) pylib \<Rightarrow> 'n input_field \<Rightarrow> string \<Rightarrow> check" where
  "min_value_check L f v =
     (case min_value (get_validation f) of
        None \<Rightarrow> Inr None
      | Some b \<Rightarrow>
          (case py_float L v of
             None \<Rightarrow> Inr None
           | Some x \<Rightarrow>
               if float_lt L x b
               then Inr (Some (label f @ '' must be at least '' @ num_str L b))
               else Inr None))"

definition max_value_check :: "('f, 'n) pylib \<Rightarrow> 'n input_field \<Rightarrow> string \<Rightarrow> check" where
  "max_value_check L f v =
     (case max_value (get_validation f) of
        None \<Rightarrow> Inr None
      | Some b \<Rightarrow>
          (case py_float L v of
             None \<Rightarrow> Inr None
           | Some x \<Rightarrow>
               if float_gt L x b
               then Inr (Some (label f @ '' must be at most '' @ num_str L b))
               else Inr None))"

definition allowed_values_check :: "'n input_field \<Rightarrow> string \<Rightarrow> check" where
  "allowed_values_check f v =
     (case allowed_values (get_validation f) of
        None \<Rightarrow> Inr None
      | Some vs \<Rightarrow>
          if v \<notin> set vs
          then Inr (Some (label f @ '' must be one of: '' @ py_join '', '' vs))
          else Inr None)"

text \<open>\<open>InputValidator.validate_field\<close>: the checks in the order of the source, each returning
  at its failure.\<close>

definition validate_field ::
  "('f, 'n) pylib \<Rightarrow> 'n input_field \<Rightarrow> string \<Rightarrow> py_exn + bool \<times> string option" where
  "validate_field L f v =
     (if get_required f \<and> v = [] then Inr (False, Some (label f @ '' is required''))
      else if v = [] then Inr (True, None)
      else
        and_then (type_check L f v)
       (and_then (pattern_check L f v)
       (and_then (min_length_check f v)
       (and_then (max_length_check f v)
       (and_then (min_value_check L f v)
       (and_then (max_value_check L f v)
       (and_then (allowed_values_check f v)
       (Inr (True, None)))))))))"

text \<open>The test of \<open>visible_if\<close> in \<open>validate_inputs\<close>: the field is skipped when the map is
  there, is not empty, and one of its conditions does not hold.\<close>

definition condition_met :: "string py_dict \<Rightarrow> string py_dict \<Rightarrow> bool" where
  "condition_met vis inp = list_all (\<lambda>(k, v). map_of inp k = Some v) vis"

definition skipped :: "'n input_field \<Rightarrow> string py_dict \<Rightarrow> bool" where
  "skipped f inp =
     (case visible_if f of
        None \<Rightarrow> False
      | Some vis \<Rightarrow> vis \<noteq> [] \<and> \<not> condition_met vis inp)"

fun validate_loop ::
  "('f, 'n) pylib \<Rightarrow> 'n input_field list \<Rightarrow> string py_dict \<Rightarrow> string option list
     \<Rightarrow> py_exn + string option list" where
  "validate_loop L [] inp errors = Inr errors"
| "validate_loop L (f # fs) inp errors =
     (if skipped f inp then validate_loop L fs inp errors
      else
        (case validate_field L f (dict_get inp (name f) []) of
           Inl e \<Rightarrow> Inl e
         | Inr (valid, error) \<Rightarrow>
             validate_loop L fs inp (if \<not> valid then errors @ [error] else errors)))"

text \<open>\<open>InputValidator.validate_inputs\<close>.\<close>

definition validate_inputs ::
  "('f, 'n) pylib \<Rightarrow> 'n manifest \<Rightarrow> string py_dict \<Rightarrow> py_exn + bool \<times> string option list" where
  "validate_inputs L m inp =
     (case validate_loop L (inputs m) inp [] of
        Inl e \<Rightarrow> Inl e
      | Inr errors \<Rightarrow> Inr (length errors = 0, errors))"

section \<open>The agent's validator (agent/daemon.py, JobExecutor.validate_inputs)\<close>

definition manifest_inputs :: "'n input_field list \<Rightarrow> 'n input_field py_dict" where
  "manifest_inputs fs = fold (\<lambda>inp d. dict_set d (name inp) inp) fs []"

definition agent_type_check :: "('f, 'n) pylib \<Rightarrow> string \<Rightarrow> 'n input_field \<Rightarrow> string \<Rightarrow> check" where
  "agent_type_check L nm f v =
     (if type f = ''integer'' then
        (case py_int L v of
           None \<Rightarrow> Inr (Some (''Invalid integer: '' @ nm))
         | Some i \<Rightarrow> Inr None)
      else if type f = ''port'' then
        (case py_int L v of
           None \<Rightarrow> Inr (Some (''Invalid port: '' @ nm))
         | Some port \<Rightarrow>
             if \<not> (1 \<le> port \<and> port \<le> 65535)
             then Inr (Some (''Port out of range: '' @ nm))
             else Inr None)
      else Inr None)"

definition agent_pattern_check :: "('f, 'n) pylib \<Rightarrow> string \<Rightarrow> 'n input_field \<Rightarrow> string \<Rightarrow> check" where
  "agent_pattern_check L nm f v =
     (case pattern (get_validation f) of
        None \<Rightarrow> Inr None
      | Some p \<Rightarrow>
          (case re_match L p v of
             Inl e \<Rightarrow> Inl e
           | Inr m \<Rightarrow> if \<not> m then Inr (Some (''Pattern mismatch: '' @ nm)) else Inr None))"

definition agent_min_length_check :: "string \<Rightarrow> 'n input_field \<Rightarrow> string \<Rightarrow> check" where
  "agent_min_length_check nm f v =
     (case min_length (get_validation f) of
        None \<Rightarrow> Inr None
      | Some n \<Rightarrow> if int (length v) < n then Inr (Some (''Value too short: '' @ nm)) else Inr None)"

definition agent_max_length_check :: "string \<Rightarrow> 'n input_field \<Rightarrow> string \<Rightarrow> check" where
  "agent_max_length_check nm f v =
     (case max_length (get_validation f) of
        None \<Rightarrow> Inr None
      | Some n \<Rightarrow> if n < int (length v) then Inr (Some (''Value too long: '' @ nm)) else Inr None)"

text \<open>The body of the loop over \<open>manifest_inputs.items()\<close>, for one item.\<close>

definition agent_check_item ::
  "('f, 'n) pylib \<Rightarrow> string py_dict \<Rightarrow> string \<Rightarrow> 'n input_field \<Rightarrow> check" where
  "agent_check_item L inp nm f =
     (if get_required f \<and> map_of inp nm = None then Inr (Some (''Required field missing: '' @ nm))
      else
        (case map_of inp nm of
           None \<Rightarrow> Inr None
         | Some v \<Rightarrow>
             (case agent_type_check L nm f v of
                Inr None \<Rightarrow>
                  (case agent_pattern_check L nm f v of
                     Inr None \<Rightarrow>
                       (case agent_min_length_check nm f v of
                          Inr None \<Rightarrow> agent_max_length_check nm f v
                        | r \<Rightarrow> r)
                   | r \<Rightarrow> r)
              | r \<Rightarrow> r)))"

fun agent_validate_loop ::
  "('f, 'n) pylib \<Rightarrow> 'n input_field py_dict \<Rightarrow> string py_dict \<Rightarrow> py_exn + bool \<times> string option" where
  "agent_validate_loop L [] inp = Inr (True, None)"
| "agent_validate_loop L ((nm, f) # items) inp =
     and_then (agent_check_item L inp nm f) (agent_validate_loop L items inp)"

text \<open>\<open>JobExecutor.validate_inputs\<close>.\<close>

definition agent_validate_inputs ::
  "('f, 'n) pylib \<Rightarrow> 'n manifest \<Rightarrow> string py_dict \<Rightarrow> py_exn + bool \<times> string option" where
  "agent_validate_inputs L m inp = agent_validate_loop L (manifest_inputs (inputs m)) inp"

section \<open>SHA-256, HMAC and the JSON text of a job (hashlib, hmac and json of the Python library)\<close>

type_synonym byte = "8 word"

text \<open>\<open>str.encode()\<close>: UTF-8, for code points below 256.\<close>

definition utf8_char :: "char \<Rightarrow> byte list" where
  "utf8_char c =
     (if (of_char c :: nat) < 128 then [word_of_nat (of_char c)]
      else [0xC0 OR word_of_nat (of_char c div 64), 0x80 OR word_of_nat (of_char c mod 64)])"

definition utf8 :: "string \<Rightarrow> byte list" where
  "utf8 s = concat (map utf8_char s)"

text \<open>SHA-256 (FIPS 180-4): constants, functions, message schedule, compression, padding.\<close>

definition K256 :: "32 word list" where
  "K256 =
   [0x428A2F98, 0x71374491, 0xB5C0FBCF, 0xE9B5DBA5, 0x3956C25B, 0x59F111F1, 0x923F82A4, 0xAB1C5ED5,
    0xD807AA98, 0x12835B01, 0x243185BE, 0x550C7DC3, 0x72BE5D74, 0x80DEB1FE, 0x9BDC06A7, 0xC19BF174,
    0xE49B69C1, 0xEFBE4786, 0x0FC19DC6, 0x240CA1CC, 0x2DE92C6F, 0x4A7484AA, 0x5CB0A9DC, 0x76F988DA,
    0x983E5152, 0xA831C66D, 0xB00327C8, 0xBF597FC7, 0xC6E00BF3, 0xD5A79147, 0x06CA6351, 0x14292967,
    0x27B70A85, 0x2E1B2138, 0x4D2C6DFC, 0x53380D13, 0x650A7354, 0x766A0ABB, 0x81C2C92E, 0x92722C85,
    0xA2BFE8A1, 0xA81A664B, 0xC24B8B70, 0xC76C51A3, 0xD192E819, 0xD6990624, 0xF40E3585, 0x106AA070,
    0x19A4C116, 0x1E376C08, 0x2748774C, 0x34B0BCB5, 0x391C0CB3, 0x4ED8AA4A, 0x5B9CCA4F, 0x682E6FF3,
    0x748F82EE, 0x78A5636F, 0x84C87814, 0x8CC70208, 0x90BEFFFA, 0xA4506CEB, 0xBEF9A3F7, 0xC67178F2]"

type_synonym sha_state =
  "32 word \<times> 32 word \<times> 32 word \<times> 32 word \<times> 32 word \<times> 32 word \<times> 32 word \<times> 32 word"

definition H256 :: sha_state where
  "H256 =
     (0x6A09E667, 0xBB67AE85, 0x3C6EF372, 0xA54FF53A, 0x510E527F, 0x9B05688C, 0x1F83D9AB, 0x5BE0CD19)"

definition rotr :: "nat \<Rightarrow> 32 word \<Rightarrow> 32 word" where
  "rotr n x = drop_bit n x OR push_bit (32 - n) x"

definition Ch :: "32 word \<Rightarrow> 32 word \<Rightarrow> 32 word \<Rightarrow> 32 word" where
  "Ch x y z = (x AND y) XOR (NOT x AND z)"

definition Maj :: "32 word \<Rightarrow> 32 word \<Rightarrow> 32 word \<Rightarrow> 32 word" where
  "Maj x y z = (x AND y) XOR (x AND z) XOR (y AND z)"

definition Sigma0 :: "32 word \<Rightarrow> 32 word" where
  "Sigma0 x = rotr 2 x XOR rotr 13 x XOR rotr 22 x"

definition Sigma1 :: "32 word \<Rightarrow> 32 word" where
  "Sigma1 x = rotr 6 x XOR rotr 11 x XOR rotr 25 x"

definition sigma0 :: "32 word \<Rightarrow> 32 word" where
  "sigma0 x = rotr 7 x XOR rotr 18 x XOR drop_bit 3 x"

definition sigma1 :: "32 word \<Rightarrow> 32 word" where
  "sigma1 x = rotr 17 x XOR rotr 19 x XOR drop_bit 10 x"

fun be32 :: "byte list \<Rightarrow> 32 word list" where
  "be32 (a # b # c # d # r) =
     (push_bit 24 (ucast a) OR push_bit 16 (ucast b) OR push_bit 8 (ucast c) OR ucast d) # be32 r"
| "be32 r = []"

definition schedule :: "32 word list \<Rightarrow> 32 word list" where
  "schedule w0 =
     fold (\<lambda>t w. w @ [sigma1 (w ! (t - 2)) + w ! (t - 7) + sigma0 (w ! (t - 15)) + w ! (t - 16)])
       [16..<64] w0"

fun round256 :: "sha_state \<Rightarrow> 32 word \<times> 32 word \<Rightarrow> sha_state" where
  "round256 (a, b, c, d, e, f, g, h) (k, w) =
     (let t1 = h + Sigma1 e + Ch e f g + k + w;
          t2 = Sigma0 a + Maj a b c
      in (t1 + t2, a, b, c, d + t1, e, f, g))"

fun add_state :: "sha_state \<Rightarrow> sha_state \<Rightarrow> sha_state" where
  "add_state (a, b, c, d, e, f, g, h) (a', b', c', d', e', f', g', h') =
     (a + a', b + b', c + c', d + d', e + e', f + f', g + g', h + h')"

definition compress :: "sha_state \<Rightarrow> byte list \<Rightarrow> sha_state" where
  "compress hs block = add_state hs (foldl round256 hs (zip K256 (schedule (be32 block))))"

fun chunks :: "nat \<Rightarrow> 'a list \<Rightarrow> 'a list list" where
  "chunks n [] = []"
| "chunks n (x # xs) = (if n = 0 then [] else take n (x # xs) # chunks n (drop n (x # xs)))"

definition be64 :: "nat \<Rightarrow> byte list" where
  "be64 n = map (\<lambda>i. ucast (drop_bit (8 * (7 - i)) (word_of_nat n :: 64 word))) [0..<8]"

definition pad :: "byte list \<Rightarrow> byte list" where
  "pad m = m @ [0x80] @ replicate ((119 - length m mod 64) mod 64) 0 @ be64 (8 * length m)"

definition bytes32 :: "32 word \<Rightarrow> byte list" where
  "bytes32 w = [ucast (drop_bit 24 w), ucast (drop_bit 16 w), ucast (drop_bit 8 w), ucast w]"

fun state_bytes :: "sha_state \<Rightarrow> byte list" where
  "state_bytes (a, b, c, d, e, f, g, h) = concat (map bytes32 [a, b, c, d, e, f, g, h])"

definition sha256 :: "byte list \<Rightarrow> byte list" where
  "sha256 m = state_bytes (foldl compress H256 (chunks 64 (pad m)))"

text \<open>HMAC (RFC 2104) with SHA-256, whose block has 64 bytes, and \<open>hexdigest\<close>.\<close>

definition hmac_sha256 :: "byte list \<Rightarrow> byte list \<Rightarrow> byte list" where
  "hmac_sha256 key msg =
     (let k = (if 64 < length key then sha256 key else key);
          k0 = k @ replicate (64 - length k) 0
      in sha256 (map (\<lambda>b. b XOR 0x5c) k0 @ sha256 (map (\<lambda>b. b XOR 0x36) k0 @ msg)))"

definition hex_digit :: "nat \<Rightarrow> char" where
  "hex_digit n = (if n < 10 then char_of (48 + n) else char_of (87 + n))"

definition hex_byte :: "byte \<Rightarrow> string" where
  "hex_byte b = [hex_digit (unat b div 16), hex_digit (unat b mod 16)]"

definition hexdigest :: "byte list \<Rightarrow> string" where
  "hexdigest bs = concat (map hex_byte bs)"

text \<open>
  \<open>json.dumps(s)\<close> for a string, with \<open>ensure_ascii\<close>: the quote and the backslash are
  escaped, backspace, form feed, newline, carriage return and tab have their short escapes,
  every other character outside \<open>' '..'~'\<close> is written \<open>\u00xx\<close>.
\<close>

definition json_escape :: "char \<Rightarrow> string" where
  "json_escape c =
     (if c = CHR 0x22 then [backslash, CHR 0x22]
      else if c = backslash then [backslash, backslash]
      else if c = CHR 0x0A then [backslash, CHR ''n'']
      else if c = CHR 0x0D then [backslash, CHR ''r'']
      else if c = CHR 0x09 then [backslash, CHR ''t'']
      else if c = CHR 0x08 then [backslash, CHR ''b'']
      else if c = CHR 0x0C then [backslash, CHR ''f'']
      else if (of_char c :: nat) < 32 \<or> 126 < (of_char c :: nat) then
        [backslash, CHR ''u'', CHR ''0'', CHR ''0'',
         hex_digit (of_char c div 16), hex_digit (of_char c mod 16)]
      else [c])"

definition json_string :: "string \<Rightarrow> string" where
  "json_string s = CHR 0x22 # concat (map json_escape s) @ [CHR 0x22]"

text \<open>\<open>json.dumps(d, sort_keys=True)\<close> for a dict of strings.\<close>

definition json_item :: "string \<times> string \<Rightarrow> string" where
  "json_item kv = json_string (fst kv) @ '': '' @ json_string (snd kv)"

definition json_dict :: "string py_dict \<Rightarrow> string" where
  "json_dict d = ''{'' @ py_join '', '' (map json_item (sort_key fst d)) @ ''}''"

text \<open>The reader of one character of the body of a JSON string: the character and the
  rest of the text.\<close>

definition hex_value :: "char \<Rightarrow> nat" where
  "hex_value c = (if (of_char c :: nat) < 58 then of_char c - 48 else of_char c - 87)"

definition short_escape :: "char \<Rightarrow> char" where
  "short_escape y =
     (if y = CHR ''n'' then CHR 0x0A else if y = CHR ''r'' then CHR 0x0D
      else if y = CHR ''t'' then CHR 0x09 else if y = CHR ''b'' then CHR 0x08
      else if y = CHR ''f'' then CHR 0x0C else y)"

fun json_unescape :: "string \<Rightarrow> (char \<times> string) option" where
  "json_unescape [] = None"
| "json_unescape (x # r) =
     (if x \<noteq> backslash then Some (x, r)
      else
        (case r of
           [] \<Rightarrow> None
         | y # r' \<Rightarrow>
             if y = CHR ''u'' then
               (case r' of
                  a # b # c # d # r'' \<Rightarrow> Some (char_of (16 * hex_value c + hex_value d), r'')
                | _ \<Rightarrow> None)
             else Some (short_escape y, r')))"

section \<open>Jobs and their signature (panel/app.py, JobManager.create_job; agent/daemon.py,
  JobExecutor.validate_signature)\<close>

text \<open>A job of the wire shape; \<open>job_inputs\<close> and \<open>job_status\<close> are the keys \<open>inputs\<close> and
  \<open>status\<close>, and \<open>signature = None\<close> is a job without the key.\<close>

record job =
  job_id :: string
  app_id :: string
  job_inputs :: "string py_dict"
  server_id :: string
  user_id :: string
  created_at :: string
  job_status :: string
  signature :: "string option"

text \<open>\<open>json.dumps(job_copy, sort_keys=True)\<close>, where \<open>job_copy\<close> is the job without its
  signature.\<close>

definition payload :: "job \<Rightarrow> string" where
  "payload j =
     ''{'' @ json_string ''app_id'' @ '': '' @ json_string (app_id j) @ '', ''
       @ json_string ''created_at'' @ '': '' @ json_string (created_at j) @ '', ''
       @ json_string ''inputs'' @ '': '' @ json_dict (job_inputs j) @ '', ''
       @ json_string ''job_id'' @ '': '' @ json_string (job_id j) @ '', ''
       @ json_string ''server_id'' @ '': '' @ json_string (server_id j) @ '', ''
       @ json_string ''status'' @ '': '' @ json_string (job_status j) @ '', ''
       @ json_string ''user_id'' @ '': '' @ json_string (user_id j) @ ''}''"

text \<open>\<open>hmac.new(SECRET_KEY.encode(), payload, hashlib.sha256).hexdigest()\<close>.\<close>

definition sign :: "string \<Rightarrow> job \<Rightarrow> string" where
  "sign secret j = hexdigest (hmac_sha256 (utf8 secret) (utf8 (payload j)))"

text \<open>\<open>hmac.compare_digest\<close> on two \<open>str\<close>: a \<open>TypeError\<close> unless both are ASCII.\<close>

definition is_ascii :: "string \<Rightarrow> bool" where
  "is_ascii s = list_all (\<lambda>c. (of_char c :: nat) < 128) s"

definition compare_digest :: "string \<Rightarrow> string \<Rightarrow> py_exn + bool" where
  "compare_digest a b =
     (if is_ascii a \<and> is_ascii b then Inr (a = b)
      else Inl (Raised ''comparing strings with non-ASCII characters is not supported''))"

definition validate_signature :: "string \<Rightarrow> job \<Rightarrow> py_exn + bool" where
  "validate_signature secret j =
     (let received_sig = (case signature j of None \<Rightarrow> [] | Some s \<Rightarrow> s);
          expected_sig = sign secret j
      in compare_digest received_sig expected_sig)"

text \<open>The job that \<open>create_job\<close> stores and queues; \<open>uuid\<close> and \<open>now\<close> are the values of
  \<open>str(uuid.uuid4())\<close> and \<open>datetime.utcnow().isoformat()\<close>.\<close>

definition create_job :: "string \<Rightarrow> string \<Rightarrow> string \<Rightarrow> string \<Rightarrow> string py_dict \<Rightarrow> string \<Rightarrow> string \<Rightarrow> job" where
  "create_job secret uuid now app inp server user =
     (let j = \<lparr>job_id = uuid, app_id = app, job_inputs = inp, server_id = server, user_id = user,
                created_at = now, job_status = ''queued'', signature = None\<rparr>
      in j\<lparr>signature := Some (sign secret j)\<rparr>)"

section \<open>The agent's executor (agent/daemon.py, JobExecutor)\<close>

text \<open>
  What the executor does to the machine it runs on is a list of events, in the order of
  the calls. What the machine answers is a record: the environment of the agent, whether
  the manifest and the script of an installer exist (or the exception of \<open>Path.exists\<close>),
  the manifest that \<open>load_manifest\<close> reads (or the exception of \<open>open\<close> or
  \<open>yaml.safe_load\<close>), the text of the script's path, and for each call of \<open>execute_script\<close>
  that can fail, the exception it raises if it does.
\<close>

datatype signal = SIGTERM | SIGKILL

datatype event =
    Chmod string string
  | OpenLog string
  | Popen string string "string py_dict"
  | Wait int
  | Killpg signal
  | Sleep nat
  | ReadLog string

datatype wait_outcome = Exited int | TimeoutExpired

record 'n world =
  environ :: "string py_dict"
  manifest_exists :: "string \<Rightarrow> py_exn + bool"
  manifest_file :: "string \<Rightarrow> py_exn + 'n manifest"
  script_path :: "string \<Rightarrow> string \<Rightarrow> string"
  script_exists :: "string \<Rightarrow> string \<Rightarrow> py_exn + bool"
  chmod :: "string \<Rightarrow> string \<Rightarrow> py_exn option"
  open_log :: "string \<Rightarrow> py_exn option"
  popen :: "string \<Rightarrow> string \<Rightarrow> string py_dict \<Rightarrow> py_exn option"
  wait :: "string \<Rightarrow> string \<Rightarrow> string py_dict \<Rightarrow> int \<Rightarrow> wait_outcome"
  killpg :: "signal \<Rightarrow> py_exn option"
  read_log :: "string \<Rightarrow> py_exn + string"

record job_result =
  result_job_id :: string
  status :: string
  exit_code :: int
  job_output :: string
  started_at :: string
  completed_at :: "string option"
  error :: "string option"

definition str_exn :: "py_exn \<Rightarrow> string" where
  "str_exn e = (case e of Raised msg \<Rightarrow> msg)"

text \<open>\<open>validate_installer\<close> and \<open>load_manifest\<close>.\<close>

definition validate_installer :: "'n world \<Rightarrow> string \<Rightarrow> py_exn + bool" where
  "validate_installer W app = manifest_exists W app"

definition load_manifest :: "'n world \<Rightarrow> string \<Rightarrow> py_exn + 'n manifest" where
  "load_manifest W app = manifest_file W app"

text \<open>\<open>prepare_environment\<close>: a copy of \<open>os.environ\<close>, then every input under its upper-cased
  name, in the order of the inputs, then the two variables of the metadata. The manifest
  is an argument that the function does not read.\<close>

definition set_inputs :: "string py_dict \<Rightarrow> string py_dict \<Rightarrow> string py_dict" where
  "set_inputs inp env = fold (\<lambda>(name, value) env. dict_set env (py_upper name) value) inp env"

definition prepare_environment :: "'n world \<Rightarrow> string py_dict \<Rightarrow> 'n manifest \<Rightarrow> string py_dict" where
  "prepare_environment W inp m =
     (let env = environ W;
          env = set_inputs inp env;
          env = dict_set env ''PROVISIONING_JOB'' ''true'';
          env = dict_set env ''DEBIAN_FRONTEND'' ''noninteractive''
      in env)"

text \<open>
  \<open>execute_script\<close>. The result is the exception that leaves the function (of \<open>exists\<close> or
  \<open>chmod\<close>, which are called before the \<open>try\<close>) or the pair of the exit code and the
  output, and the events.
\<close>

definition on_timeout :: "'n world \<Rightarrow> (int \<times> string) \<times> event list" where
  "on_timeout W =
     (case killpg W SIGTERM of
        Some e \<Rightarrow> ((1, str_exn e), [Killpg SIGTERM])
      | None \<Rightarrow>
          (case killpg W SIGKILL of
             Some e \<Rightarrow> ((1, str_exn e), [Killpg SIGTERM, Sleep 5, Killpg SIGKILL])
           | None \<Rightarrow> ((124, ''Execution timed out''), [Killpg SIGTERM, Sleep 5, Killpg SIGKILL])))"

definition execute_script ::
  "'n world \<Rightarrow> string \<Rightarrow> string \<Rightarrow> string py_dict \<Rightarrow> int \<Rightarrow> string
     \<Rightarrow> (py_exn + int \<times> string) \<times> event list" where
  "execute_script W app script_name env timeout jid =
     (case script_exists W app script_name of
        Inl e \<Rightarrow> (Inl e, [])
      | Inr found \<Rightarrow>
      if \<not> found
      then (Inr (1, ''Script not found: '' @ script_path W app script_name), [])
      else
        (case chmod W app script_name of
           Some e \<Rightarrow> (Inl e, [Chmod app script_name])
         | None \<Rightarrow>
             (case open_log W jid of
                Some e \<Rightarrow> (Inr (1, str_exn e), [Chmod app script_name, OpenLog jid])
              | None \<Rightarrow>
                  (case popen W app script_name env of
                     Some e \<Rightarrow>
                       (Inr (1, str_exn e),
                        [Chmod app script_name, OpenLog jid, Popen app script_name env])
                   | None \<Rightarrow>
                       (case wait W app script_name env timeout of
                          TimeoutExpired \<Rightarrow>
                            (Inr (fst (on_timeout W)),
                             [Chmod app script_name, OpenLog jid, Popen app script_name env,
                              Wait timeout] @ snd (on_timeout W))
                        | Exited code \<Rightarrow>
                            (case read_log W jid of
                               Inl e \<Rightarrow>
                                 (Inr (1, str_exn e),
                                  [Chmod app script_name, OpenLog jid, Popen app script_name env,
                                   Wait timeout, ReadLog jid])
                             | Inr out \<Rightarrow>
                                 (Inr (code, out),
                                  [Chmod app script_name, OpenLog jid, Popen app script_name env,
                                   Wait timeout, ReadLog jid])))))))"

text \<open>
  \<open>execute_job\<close>. \<open>job_steps\<close> is the body of its \<open>try\<close>: it raises, or it returns the result
  as the body leaves it. \<open>execute_job\<close> adds what \<open>except\<close> and \<open>finally\<close> do. \<open>started\<close> and
  \<open>completed\<close> are the two values of \<open>datetime.utcnow().isoformat()\<close>.
\<close>

definition initial_result :: "job \<Rightarrow> string \<Rightarrow> job_result" where
  "initial_result j started =
     \<lparr>result_job_id = job_id j, status = ''failed'', exit_code = 1, job_output = [],
      started_at = started, completed_at = None, error = None\<rparr>"

definition get_timeout :: "'n manifest \<Rightarrow> int" where
  "get_timeout m = (case timeout_seconds m of None \<Rightarrow> 600 | Some t \<Rightarrow> t)"

definition get_install_script :: "'n manifest \<Rightarrow> string" where
  "get_install_script m = (case install_script m of None \<Rightarrow> ''install.sh'' | Some s \<Rightarrow> s)"

definition str_optional :: "string option \<Rightarrow> string" where
  "str_optional e = (case e of None \<Rightarrow> ''None'' | Some s \<Rightarrow> s)"

definition run_installer ::
  "'n world \<Rightarrow> job \<Rightarrow> 'n manifest \<Rightarrow> job_result \<Rightarrow> (py_exn + job_result) \<times> event list" where
  "run_installer W j m result =
     (let env = prepare_environment W (job_inputs j) m;
          timeout = get_timeout m;
          script_name = get_install_script m
      in case execute_script W (app_id j) script_name env timeout (job_id j) of
           (Inl e, evs) \<Rightarrow> (Inl e, evs)
         | (Inr (code, out), evs) \<Rightarrow>
             (Inr (result\<lparr>exit_code := code, job_output := out,
                     status := (if code = 0 then ''success'' else ''failed''),
                     error := (if code \<noteq> 0 then Some (''Script exited with code '' @ py_str_int code)
                               else error result)\<rparr>),
              evs))"

definition job_steps ::
  "('f, 'n) pylib \<Rightarrow> string \<Rightarrow> 'n world \<Rightarrow> job \<Rightarrow> job_result
     \<Rightarrow> (py_exn + job_result) \<times> event list" where
  "job_steps L secret W j result =
     (case validate_signature secret j of
        Inl e \<Rightarrow> (Inl e, [])
      | Inr sig_ok \<Rightarrow>
          if \<not> sig_ok then (Inr (result\<lparr>error := Some ''Invalid signature''\<rparr>), [])
          else
          (case validate_installer W (app_id j) of
             Inl e \<Rightarrow> (Inl e, [])
           | Inr listed \<Rightarrow>
          if \<not> listed
          then (Inr (result\<lparr>error := Some (''Installer not whitelisted: '' @ app_id j)\<rparr>), [])
          else
            (case load_manifest W (app_id j) of
               Inl e \<Rightarrow> (Inl e, [])
             | Inr m \<Rightarrow>
                 (case agent_validate_inputs L m (job_inputs j) of
                    Inl e \<Rightarrow> (Inl e, [])
                  | Inr (valid, err) \<Rightarrow>
                      if \<not> valid
                      then (Inr (result\<lparr>error :=
                                  Some (''Input validation failed: '' @ str_optional err)\<rparr>), [])
                      else run_installer W j m result))))"

definition execute_job ::
  "('f, 'n) pylib \<Rightarrow> string \<Rightarrow> 'n world \<Rightarrow> string \<Rightarrow> string \<Rightarrow> job \<Rightarrow> job_result \<times> event list" where
  "execute_job L secret W started completed j =
     (let result = initial_result j started
      in case job_steps L secret W j result of
           (Inl e, evs) \<Rightarrow> (result\<lparr>error := Some (str_exn e), completed_at := Some completed\<rparr>, evs)
         | (Inr r, evs) \<Rightarrow> (r\<lparr>completed_at := Some completed\<rparr>, evs))"

section \<open>Manifests and fields of the tests\<close>

text \<open>The manifest of \<open>test_visible_if_condition\<close> and the field of \<open>test_validate_port\<close>.\<close>

definition ssl_manifest :: "int manifest" where
  "ssl_manifest =
     \<lparr>inputs =
        [\<lparr>name = ''enable_ssl'', type = ''boolean'', label = ''Enable SSL'', required = Some False,
          default = Some ''false'', validation = None, visible_if = None\<rparr>,
         \<lparr>name = ''ssl_port'', type = ''port'', label = ''SSL Port'', required = Some True,
          default = None, validation = None, visible_if = Some [(''enable_ssl'', ''true'')]\<rparr>],
      install_script = None, timeout_seconds = None\<rparr>"

definition port_field :: "int input_field" where
  "port_field =
     \<lparr>name = ''port'', type = ''port'', label = ''Port'', required = Some True,
      default = None, validation = None, visible_if = None\<rparr>"

definition port_manifest :: "int manifest" where
  "port_manifest = \<lparr>inputs = [port_field], install_script = None, timeout_seconds = None\<rparr>"

text \<open>An integer field with a minimal length, and an optional port field with every kind of
  constraint.\<close>

definition count_field :: "int input_field" where
  "count_field =
     \<lparr>name = ''count'', type = ''integer'', label = ''Count'', required = Some True,
      default = None, validation = Some (no_validation\<lparr>min_length := Some 5\<rparr>),
      visible_if = None\<rparr>"

definition count_manifest :: "int manifest" where
  "count_manifest = \<lparr>inputs = [count_field], install_script = None, timeout_seconds = None\<rparr>"

definition optional_field :: "int input_field" where
  "optional_field =
     \<lparr>name = ''backup_port'', type = ''port'', label = ''Backup Port'', required = Some False,
      default = None,
      validation = Some \<lparr>pattern = Some ''^[0-9]+$'', min_length = Some 2, max_length = Some 5,
        min_value = Some 1024, max_value = Some 65535, allowed_values = Some [''8080'', ''8443'']\<rparr>,
      visible_if = None\<rparr>"

text \<open>A machine on which every installer runs past its timeout, two on which a step of the
  executor raises, and three signed jobs.\<close>

definition agent_world :: "int world" where
  "agent_world =
     \<lparr>environ = [(''PATH'', ''/usr/bin''), (''SECRET_KEY'', ''change-me-in-production'')],
      manifest_exists = (\<lambda>app. Inr (app = ''nginx'' \<or> app = ''ssl-app'')),
      manifest_file = (\<lambda>app. if app = ''nginx'' then Inr port_manifest
                            else if app = ''ssl-app'' then Inr ssl_manifest
                            else Inl (Raised ''No such file or directory'')),
      script_path = (\<lambda>app s. ''/opt/provisioning/installers/'' @ app @ ''/'' @ s),
      script_exists = (\<lambda>app s. Inr True),
      chmod = (\<lambda>app s. None),
      open_log = (\<lambda>jid. None),
      popen = (\<lambda>app s env. None),
      wait = (\<lambda>app s env t. TimeoutExpired),
      killpg = (\<lambda>sig. None),
      read_log = (\<lambda>jid. Inr [])\<rparr>"

definition nginx_job :: job where
  "nginx_job =
     create_job ''change-me-in-production'' ''job-1'' ''2024-01-01T00:00:00'' ''nginx''
       [(''port'', ''80'')] ''agent-001'' ''admin''"

definition unknown_job :: job where
  "unknown_job =
     create_job ''change-me-in-production'' ''job-2'' ''2024-01-01T00:00:00'' ''unknown''
       [] ''agent-001'' ''admin''"

definition ssl_job :: job where
  "ssl_job =
     create_job ''change-me-in-production'' ''job-3'' ''2024-01-01T00:00:00'' ''ssl-app''
       [(''enable_ssl'', ''false'')] ''agent-001'' ''admin''"

definition broken_manifest_world :: "int world" where
  "broken_manifest_world = agent_world\<lparr>manifest_file := (\<lambda>app. Inl (Raised ''mapping values are not allowed here''))\<rparr>"

definition read_only_world :: "int world" where
  "read_only_world = agent_world\<lparr>chmod := (\<lambda>app s. Some (Raised ''Operation not permitted''))\<rparr>"



definition field_checks :: "('f, 'n) pylib \<Rightarrow> 'n input_field \<Rightarrow> string \<Rightarrow> check list" where
  "field_checks L f v =
     [type_check L f v, pattern_check L f v, min_length_check f v, max_length_check f v,
      min_value_check L f v, max_value_check L f v, allowed_values_check f v]"

section \<open>Evaluation of the library functions\<close>

lemma and_then_simps:
  "and_then (Inl e) k = Inl e"
  "and_then (Inr (Some msg)) k = Inr (False, Some msg)"
  "and_then (Inr None) k = k"
  by (simp_all add: and_then_def)

lemma int_literal_80: "int_literal ''80'' = Some (False, ''80'')"
  by code_simp

lemma int_literal_443: "int_literal ''443'' = Some (False, ''443'')"
  by code_simp

lemma int_literal_99999: "int_literal ''99999'' = Some (False, ''99999'')"
  by code_simp

lemma int_literal_not_a_port: "int_literal ''not-a-port'' = None"
  by code_simp

lemma int_literal_abc: "int_literal ''abc'' = None"
  by code_simp

lemma py_int_80: "py_int L ''80'' = Some 80"
  by (simp add: py_int_def int_literal_80 dec_value_def)

lemma py_int_443: "py_int L ''443'' = Some 443"
  by (simp add: py_int_def int_literal_443 dec_value_def)

lemma py_int_99999: "py_int L ''99999'' = Some 99999"
  by (simp add: py_int_def int_literal_99999 dec_value_def)

lemma py_int_not_a_port: "py_int L ''not-a-port'' = None"
  by (simp add: py_int_def int_literal_not_a_port)

lemma py_int_abc: "py_int L ''abc'' = None"
  by (simp add: py_int_def int_literal_abc)

lemma py_lower_false: "py_lower ''false'' = ''false''"
  by code_simp

lemma py_lower_true: "py_lower ''true'' = ''true''"
  by code_simp

lemma py_str_int_5: "py_str_int 5 = ''5''"
  by code_simp


section \<open>The checks of one field\<close>

lemma no_validation_checks:
  "validation f = None \<Longrightarrow> pattern_check L f v = Inr None"
  "validation f = None \<Longrightarrow> min_length_check f v = Inr None"
  "validation f = None \<Longrightarrow> max_length_check f v = Inr None"
  "validation f = None \<Longrightarrow> min_value_check L f v = Inr None"
  "validation f = None \<Longrightarrow> max_value_check L f v = Inr None"
  "validation f = None \<Longrightarrow> allowed_values_check f v = Inr None"
  by (simp_all add: pattern_check_def min_length_check_def max_length_check_def
      min_value_check_def max_value_check_def allowed_values_check_def get_validation_def
      no_validation_def)

lemma no_validation_agent_checks:
  "validation f = None \<Longrightarrow> agent_pattern_check L nm f v = Inr None"
  "validation f = None \<Longrightarrow> agent_min_length_check nm f v = Inr None"
  "validation f = None \<Longrightarrow> agent_max_length_check nm f v = Inr None"
  by (simp_all add: agent_pattern_check_def agent_min_length_check_def
      agent_max_length_check_def get_validation_def no_validation_def)

lemma type_check_port:
  "type f = ''port'' \<Longrightarrow> type_check L f v =
     (case py_int L v of
        None \<Rightarrow> Inr (Some (label f @ '' must be a valid port number''))
      | Some port \<Rightarrow>
          if 1 \<le> port \<and> port \<le> 65535 then Inr None
          else Inr (Some (label f @ '' must be between 1 and 65535'')))"
  by (simp add: type_check_def split: option.splits)

lemma agent_type_check_port:
  "type f = ''port'' \<Longrightarrow> agent_type_check L nm f v =
     (case py_int L v of
        None \<Rightarrow> Inr (Some (''Invalid port: '' @ nm))
      | Some port \<Rightarrow>
          if 1 \<le> port \<and> port \<le> 65535 then Inr None
          else Inr (Some (''Port out of range: '' @ nm)))"
  by (simp add: agent_type_check_def split: option.splits)

lemma panel_port_accept:
  assumes "type f = ''port''" "v \<noteq> []" "validate_field L f v = Inr (True, None)"
  shows "\<exists>p. py_int L v = Some p \<and> 1 \<le> p \<and> p \<le> 65535"
  using assms
  by (simp add: validate_field_def type_check_port and_then_simps split: if_splits option.splits)

lemma panel_port_reject:
  assumes "type f = ''port''" "v \<noteq> []"
    "\<not> (\<exists>p. py_int L v = Some p \<and> 1 \<le> p \<and> p \<le> 65535)"
  shows "validate_field L f v =
     Inr (False, Some (label f @
       (if py_int L v = None then '' must be a valid port number''
        else '' must be between 1 and 65535'')))"
  using assms
  by (auto simp add: validate_field_def type_check_port and_then_simps
      split: if_splits option.splits)

lemma agent_item_port_accept:
  assumes "type f = ''port''" "map_of inp nm = Some v" "agent_check_item L inp nm f = Inr None"
  shows "\<exists>p. py_int L v = Some p \<and> 1 \<le> p \<and> p \<le> 65535"
  using assms
  by (simp add: agent_check_item_def agent_type_check_port
      split: if_splits option.splits sum.splits)

lemma agent_item_port_reject:
  assumes "type f = ''port''" "map_of inp nm = Some v"
    "\<not> (\<exists>p. py_int L v = Some p \<and> 1 \<le> p \<and> p \<le> 65535)"
  shows "agent_check_item L inp nm f =
     Inr (Some ((if py_int L v = None then ''Invalid port: '' else ''Port out of range: '') @ nm))"
  using assms
  by (auto simp add: agent_check_item_def agent_type_check_port
      split: if_splits option.splits sum.splits)

lemma agent_loop_accept:
  "agent_validate_loop L items inp = Inr (True, e) \<Longrightarrow> (nm, f) \<in> set items \<Longrightarrow>
     agent_check_item L inp nm f = Inr None"
proof (induction items)
  case Nil
  then show ?case by simp
next
  case (Cons it items)
  obtain nm' f' where it: "it = (nm', f')" by (cases it)
  from Cons.prems(1) have h: "agent_check_item L inp nm' f' = Inr None"
    and r: "agent_validate_loop L items inp = Inr (True, e)"
    by (auto simp add: it and_then_def split: sum.splits option.splits)
  from Cons.prems(2) show ?case
    using h r Cons.IH by (auto simp add: it)
qed

lemma agent_first_failure:
  "\<forall>(n, g) \<in> set pre. agent_check_item L inp n g = Inr None \<Longrightarrow>
   agent_check_item L inp nm f = Inr (Some msg) \<Longrightarrow>
   agent_validate_loop L (pre @ (nm, f) # post) inp = Inr (False, Some msg)"
  by (induction pre) (auto simp add: and_then_simps)





lemma validate_field_foldr:
  "v \<noteq> [] \<Longrightarrow> validate_field L f v = foldr and_then (field_checks L f v) (Inr (True, None))"
  by (simp add: validate_field_def field_checks_def)

lemma foldr_first_failure:
  "\<forall>c \<in> set pre. c = Inr None \<Longrightarrow>
     foldr and_then (pre @ Inr (Some msg) # post) k = Inr (False, Some msg)"
  by (induction pre) (simp_all add: and_then_simps)

lemma first_failure:
  assumes "v \<noteq> []" "i < length (field_checks L f v)" "field_checks L f v ! i = Inr (Some msg)"
    "\<forall>j<i. field_checks L f v ! j = Inr None"
  shows "validate_field L f v = Inr (False, Some msg)"
proof -
  let ?cs = "field_checks L f v"
  have split: "?cs = take i ?cs @ Inr (Some msg) # drop (Suc i) ?cs"
    using assms(2,3) by (metis id_take_nth_drop)
  have pre: "\<forall>c \<in> set (take i ?cs). c = Inr None"
    using assms(2,4) by (auto simp add: in_set_conv_nth)
  have "foldr and_then ?cs (Inr (True, None)) = Inr (False, Some msg)"
    by (subst split) (rule foldr_first_failure[OF pre])
  then show ?thesis using assms(1) by (simp add: validate_field_foldr)
qed

section \<open>The loop over the fields\<close>

lemma validate_loop_append:
  "validate_loop L (pre @ post) inp errors =
     (case validate_loop L pre inp errors of
        Inl e \<Rightarrow> Inl e
      | Inr errs \<Rightarrow> validate_loop L post inp errs)"
  by (induction pre arbitrary: errors) (auto split: sum.splits)

lemma validate_loop_errors:
  "validate_loop L fs inp errors = Inr errs \<Longrightarrow>
   errs = errors @ concat (map (\<lambda>f. case validate_field L f (dict_get inp (name f) []) of
             Inr (False, e) \<Rightarrow> [e] | _ \<Rightarrow> [])
           (filter (\<lambda>f. \<not> skipped f inp) fs))"
proof (induction fs arbitrary: errors)
  case Nil
  then show ?case by simp
next
  case (Cons f fs)
  show ?case
  proof (cases "skipped f inp")
    case True
    with Cons show ?thesis by simp
  next
    case False
    with Cons.prems obtain valid error where
      r: "validate_field L f (dict_get inp (name f) []) = Inr (valid, error)"
      and l: "validate_loop L fs inp (if \<not> valid then errors @ [error] else errors) = Inr errs"
      by (auto split: sum.splits)
    from Cons.IH[OF l] False r show ?thesis by (cases valid) simp_all
  qed
qed

lemma validate_inputs_errors:
  assumes "validate_inputs L m inp = Inr (ok, errs)"
  shows "errs = concat (map (\<lambda>f. case validate_field L f (dict_get inp (name f) []) of
             Inr (False, e) \<Rightarrow> [e] | _ \<Rightarrow> [])
           (filter (\<lambda>f. \<not> skipped f inp) (inputs m))) \<and> ok = (errs = [])"
proof (cases "validate_loop L (inputs m) inp []")
  case (Inl e)
  with assms show ?thesis by (simp add: validate_inputs_def)
next
  case (Inr es)
  with assms have r: "ok = (es = [])" "errs = es"
    by (auto simp add: validate_inputs_def)
  have "es = [] @ concat (map (\<lambda>f. case validate_field L f (dict_get inp (name f) []) of
             Inr (False, e) \<Rightarrow> [e] | _ \<Rightarrow> [])
           (filter (\<lambda>f. \<not> skipped f inp) (inputs m)))"
    by (rule validate_loop_errors[OF Inr])
  then have "errs = concat (map (\<lambda>f. case validate_field L f (dict_get inp (name f) []) of
             Inr (False, e) \<Rightarrow> [e] | _ \<Rightarrow> [])
           (filter (\<lambda>f. \<not> skipped f inp) (inputs m)))"
    unfolding r(2) by (simp only: append_Nil)
  moreover have "ok = (errs = [])" unfolding r ..
  ultimately show ?thesis by (rule conjI)
qed

lemma optional_empty_in_loop:
  assumes "required f = Some False"
    and "map_of inp (name f) = None \<or> map_of inp (name f) = Some []"
  shows "validate_loop L (f # fs) inp errors = validate_loop L fs inp errors"
  using assms by (auto simp add: validate_field_def get_required_def dict_get_def)

section \<open>The manifest of the visibility test, in both validators\<close>

lemmas panel_eval = validate_inputs_def validate_field_def skipped_def condition_met_def
  dict_get_def get_required_def type_check_def and_then_simps no_validation_checks

lemmas agent_eval = agent_validate_inputs_def manifest_inputs_def agent_check_item_def
  get_required_def agent_type_check_def no_validation_agent_checks and_then_simps

lemma panel_ssl_disabled:
  "validate_inputs L ssl_manifest [(''enable_ssl'', ''false'')] = Inr (True, [])"
  by (simp add: ssl_manifest_def panel_eval py_lower_false)

lemma panel_ssl_enabled_no_port:
  "validate_inputs L ssl_manifest [(''enable_ssl'', ''true'')] =
     Inr (False, [Some ''SSL Port is required''])"
  by (simp add: ssl_manifest_def panel_eval py_lower_true)

lemma panel_ssl_enabled_port:
  "validate_inputs L ssl_manifest [(''enable_ssl'', ''true''), (''ssl_port'', ''443'')] =
     Inr (True, [])"
  by (simp add: ssl_manifest_def panel_eval py_lower_true py_int_443)

lemma agent_ssl_disabled:
  "agent_validate_inputs L ssl_manifest [(''enable_ssl'', ''false'')] =
     Inr (False, Some ''Required field missing: ssl_port'')"
  by (simp add: ssl_manifest_def agent_eval)

lemma agent_ssl_enabled_no_port:
  "agent_validate_inputs L ssl_manifest [(''enable_ssl'', ''true'')] =
     Inr (False, Some ''Required field missing: ssl_port'')"
  by (simp add: ssl_manifest_def agent_eval)

lemma agent_ssl_enabled_port:
  "agent_validate_inputs L ssl_manifest [(''enable_ssl'', ''true''), (''ssl_port'', ''443'')] =
     Inr (True, None)"
  by (simp add: ssl_manifest_def agent_eval py_int_443)

lemma skipped_iff:
  "skipped f inp \<longleftrightarrow>
     (\<exists>vis. visible_if f = Some vis \<and> (\<exists>(k, v) \<in> set vis. map_of inp k \<noteq> Some v))"
  by (auto simp add: skipped_def condition_met_def list_all_iff split: option.splits)

section \<open>The claims about the validators\<close>

text \<open>
  C3 (as stated, refuted): on the value \<open>abc\<close> of an integer field of minimal length 5, the
  type check and the length check both fail, and \<open>validate_inputs\<close> reports the first only.
\<close>

theorem validate_inputs_one_error_per_field_counterexample:
  "\<forall>L :: (int, int) pylib.
     type_check L count_field ''abc'' = Inr (Some ''Count must be an integer'') \<and>
     min_length_check count_field ''abc'' = Inr (Some ''Count must be at least 5 characters'') \<and>
     validate_inputs L count_manifest [(''count'', ''abc'')] =
       Inr (False, [Some ''Count must be an integer''])"
proof -
  have n: "name count_field = ''count''" "visible_if count_field = None" "get_required count_field"
    "type count_field = ''integer''" "label count_field = ''Count''"
    "get_validation count_field = no_validation\<lparr>min_length := Some 5\<rparr>"
    by (simp_all add: count_field_def get_required_def get_validation_def)
  have t: "type_check L count_field ''abc'' = Inr (Some ''Count must be an integer'')"
    for L :: "(int, int) pylib"
    by (simp add: type_check_def n py_int_abc)
  have l: "min_length_check count_field ''abc'' = Inr (Some ''Count must be at least 5 characters'')"
    by (simp add: min_length_check_def n py_str_int_5)
  have "validate_inputs L count_manifest [(''count'', ''abc'')] =
       Inr (False, [Some ''Count must be an integer''])"
    for L :: "(int, int) pylib"
    by (simp add: count_manifest_def validate_inputs_def skipped_def n dict_get_def
        validate_field_def t and_then_simps)
  with t l show ?thesis by simp
qed

text \<open>
  C3 (amended): the control plane's \<open>validate_inputs\<close> checks every field that is not hidden,
  in the order of the manifest and without stopping at a failing field; for each of them it
  reports at most one message, that of the first failing check of \<open>validate_field\<close> (a later
  failing check of the same field is not reported); it is valid exactly when no message is
  reported. The agent's \<open>validate_inputs\<close> returns the message of the first failing field only.
\<close>

theorem validate_inputs_first_failure_per_field:
  "(validate_inputs L m inp = Inr (ok, errs) \<longrightarrow>
      errs = concat (map (\<lambda>f. case validate_field L f (dict_get inp (name f) []) of
                 Inr (False, e) \<Rightarrow> [e] | _ \<Rightarrow> [])
               (filter (\<lambda>f. \<not> skipped f inp) (inputs m))) \<and>
      ok = (errs = [])) \<and>
   (v \<noteq> [] \<and> i < length (field_checks L f v) \<and> field_checks L f v ! i = Inr (Some msg) \<and>
      (\<forall>j<i. field_checks L f v ! j = Inr None) \<longrightarrow>
      validate_field L f v = Inr (False, Some msg)) \<and>
   ((\<forall>(n, g) \<in> set pre. agent_check_item L inp n g = Inr None) \<and>
      agent_check_item L inp nm fa = Inr (Some amsg) \<longrightarrow>
      agent_validate_loop L (pre @ (nm, fa) # post) inp = Inr (False, Some amsg))"
  using validate_inputs_errors[of L m inp ok errs] first_failure[of v i L f msg]
    agent_first_failure[of pre L inp nm fa amsg post]
  by blast

theorem validate_inputs_first_failure_per_field_witness:
  "\<forall>L :: (int, int) pylib.
     validate_inputs L count_manifest [(''count'', ''abc'')] =
       Inr (False, [Some ''Count must be an integer'']) \<and>
     [Some ''Count must be an integer''] =
       concat (map (\<lambda>f. case validate_field L f (dict_get [(''count'', ''abc'')] (name f) []) of
                 Inr (False, e) \<Rightarrow> [e] | _ \<Rightarrow> [])
               (filter (\<lambda>f. \<not> skipped f [(''count'', ''abc'')]) (inputs count_manifest))) \<and>
     field_checks L count_field ''abc'' ! 0 = Inr (Some ''Count must be an integer'') \<and>
     validate_field L count_field ''abc'' = Inr (False, Some ''Count must be an integer'') \<and>
     agent_check_item L [(''count'', ''abc'')] ''count'' count_field =
       Inr (Some ''Invalid integer: count'') \<and>
     agent_validate_loop L ([] @ (''count'', count_field) # []) [(''count'', ''abc'')] =
       Inr (False, Some ''Invalid integer: count'')"
proof (intro allI)
  fix L :: "(int, int) pylib"
  let ?inp = "[(''count'', ''abc'')]"
  let ?msg = "''Count must be an integer''"
  have n: "name count_field = ''count''" "visible_if count_field = None" "get_required count_field"
    "type count_field = ''integer''" "label count_field = ''Count''"
    by (simp_all add: count_field_def get_required_def)
  have t: "type_check L count_field ''abc'' = Inr (Some ?msg)"
    by (simp add: type_check_def n py_int_abc)
  have h1: "validate_inputs L count_manifest ?inp = Inr (False, [Some ?msg])"
    by (simp add: count_manifest_def validate_inputs_def skipped_def n dict_get_def
        validate_field_def t and_then_simps)
  have h2: "''abc'' \<noteq> []" "0 < length (field_checks L count_field ''abc'')"
    "field_checks L count_field ''abc'' ! 0 = Inr (Some ?msg)"
    "\<forall>j<0. field_checks L count_field ''abc'' ! j = Inr None"
    by (simp_all add: field_checks_def t)
  have h3: "\<forall>(n, g) \<in> set []. agent_check_item L ?inp n g = Inr None"
    "agent_check_item L ?inp ''count'' count_field = Inr (Some ''Invalid integer: count'')"
    by (simp_all add: agent_check_item_def n agent_type_check_def py_int_abc)
  note T = validate_inputs_first_failure_per_field[of L count_manifest ?inp False "[Some ?msg]"
      "''abc''" 0 count_field ?msg "[]" "''count''" count_field "''Invalid integer: count''" "[]"]
  from T h1 have c1: "[Some ?msg] =
       concat (map (\<lambda>f. case validate_field L f (dict_get ?inp (name f) []) of
                 Inr (False, e) \<Rightarrow> [e] | _ \<Rightarrow> [])
               (filter (\<lambda>f. \<not> skipped f ?inp) (inputs count_manifest)))"
    by blast
  from T h2 have c2: "validate_field L count_field ''abc'' = Inr (False, Some ?msg)"
    by blast
  from T h3 have c3: "agent_validate_loop L ([] @ (''count'', count_field) # []) ?inp =
       Inr (False, Some ''Invalid integer: count'')"
    by blast
  from h1 c1 h2(3) c2 h3(2) c3
  show "validate_inputs L count_manifest [(''count'', ''abc'')] =
       Inr (False, [Some ''Count must be an integer'']) \<and>
     [Some ''Count must be an integer''] =
       concat (map (\<lambda>f. case validate_field L f (dict_get [(''count'', ''abc'')] (name f) []) of
                 Inr (False, e) \<Rightarrow> [e] | _ \<Rightarrow> [])
               (filter (\<lambda>f. \<not> skipped f [(''count'', ''abc'')]) (inputs count_manifest))) \<and>
     field_checks L count_field ''abc'' ! 0 = Inr (Some ''Count must be an integer'') \<and>
     validate_field L count_field ''abc'' = Inr (False, Some ''Count must be an integer'') \<and>
     agent_check_item L [(''count'', ''abc'')] ''count'' count_field =
       Inr (Some ''Invalid integer: count'') \<and>
     agent_validate_loop L ([] @ (''count'', count_field) # []) [(''count'', ''abc'')] =
       Inr (False, Some ''Invalid integer: count'')"
    by (intro conjI)
qed

text \<open>
  C4: the control plane's \<open>validate_inputs\<close> skips a field whose \<open>visible_if\<close> names a value
  that the inputs do not have, and gives the three results of the test; the agent's
  \<open>validate_inputs\<close> never reads \<open>visible_if\<close> and rejects the inputs \<open>{enable_ssl: "false"}\<close>
  that the control plane accepts.
\<close>

theorem visible_if_panel_and_agent:
  "\<forall>L :: (int, int) pylib.
     validate_inputs L ssl_manifest [(''enable_ssl'', ''false'')] = Inr (True, []) \<and>
     validate_inputs L ssl_manifest [(''enable_ssl'', ''true'')] =
       Inr (False, [Some ''SSL Port is required'']) \<and>
     validate_inputs L ssl_manifest [(''enable_ssl'', ''true''), (''ssl_port'', ''443'')] =
       Inr (True, []) \<and>
     agent_validate_inputs L ssl_manifest [(''enable_ssl'', ''false'')] =
       Inr (False, Some ''Required field missing: ssl_port'') \<and>
     agent_validate_inputs L ssl_manifest [(''enable_ssl'', ''true'')] =
       Inr (False, Some ''Required field missing: ssl_port'') \<and>
     agent_validate_inputs L ssl_manifest [(''enable_ssl'', ''true''), (''ssl_port'', ''443'')] =
       Inr (True, None)"
  by (simp add: panel_ssl_disabled panel_ssl_enabled_no_port panel_ssl_enabled_port
      agent_ssl_disabled agent_ssl_enabled_no_port agent_ssl_enabled_port)

lemma hidden_field_in_loop:
  assumes "visible_if f = Some vis" "(k, v) \<in> set vis" "map_of inp k \<noteq> Some v"
  shows "validate_loop L (f # fs) inp errors = validate_loop L fs inp errors"
proof -
  have "skipped f inp" using assms by (auto simp add: skipped_iff)
  then show ?thesis by simp
qed

text \<open>
  The control plane's \<open>validate_inputs\<close> skips a field entirely when one entry of its
  \<open>visible_if\<close> names a field whose supplied value is not the expected one: the result is that
  of the manifest without the field, whatever the field requires.
\<close>

theorem hidden_field_skipped:
  assumes "visible_if f = Some vis" "(k, v) \<in> set vis" "map_of inp k \<noteq> Some v"
  shows "validate_inputs L (m\<lparr>inputs := pre @ f # post\<rparr>) inp =
     validate_inputs L (m\<lparr>inputs := pre @ post\<rparr>) inp"
proof -
  have "validate_loop L (pre @ f # post) inp [] = validate_loop L (pre @ post) inp []"
    by (simp only: validate_loop_append[of L pre] hidden_field_in_loop[OF assms])
  then show ?thesis by (simp add: validate_inputs_def)
qed

theorem hidden_field_skipped_witness:
  "\<forall>L :: (int, int) pylib.
     visible_if (inputs ssl_manifest ! 1) = Some [(''enable_ssl'', ''true'')] \<and>
     map_of [(''enable_ssl'', ''false'')] ''enable_ssl'' \<noteq> Some ''true'' \<and>
     validate_inputs L (ssl_manifest\<lparr>inputs := [inputs ssl_manifest ! 0] @ inputs ssl_manifest ! 1 # []\<rparr>)
        [(''enable_ssl'', ''false'')] =
     validate_inputs L (ssl_manifest\<lparr>inputs := [inputs ssl_manifest ! 0] @ []\<rparr>)
        [(''enable_ssl'', ''false'')]"
proof (intro allI)
  fix L :: "(int, int) pylib"
  have v: "visible_if (inputs ssl_manifest ! 1) = Some [(''enable_ssl'', ''true'')]"
    by (simp add: ssl_manifest_def)
  have i: "(''enable_ssl'', ''true'') \<in> set [(''enable_ssl'', ''true'')]" by simp
  have n: "map_of [(''enable_ssl'', ''false'')] ''enable_ssl'' \<noteq> Some ''true''" by simp
  from hidden_field_skipped[OF v i n, where L = L and m = ssl_manifest
      and pre = "[inputs ssl_manifest ! 0]" and post = "[]"] v n
  show "visible_if (inputs ssl_manifest ! 1) = Some [(''enable_ssl'', ''true'')] \<and>
     map_of [(''enable_ssl'', ''false'')] ''enable_ssl'' \<noteq> Some ''true'' \<and>
     validate_inputs L (ssl_manifest\<lparr>inputs := [inputs ssl_manifest ! 0] @ inputs ssl_manifest ! 1 # []\<rparr>)
        [(''enable_ssl'', ''false'')] =
     validate_inputs L (ssl_manifest\<lparr>inputs := [inputs ssl_manifest ! 0] @ []\<rparr>)
        [(''enable_ssl'', ''false'')]"
    by (intro conjI)
qed

text \<open>
  C7: for a field of type port, the control plane's \<open>validate_field\<close> accepts a supplied (not
  empty) value only if it parses as an integer between 1 and 65535, and rejects every other
  value with the message of the type check; the agent's \<open>validate_inputs\<close> accepts the inputs
  only if the value supplied for the field is such an integer, and its check of the field
  fails otherwise. Both accept 80 (for a field with no further constraint) and reject 99999
  and not-a-port.
\<close>

theorem port_type_check:
  assumes "type f = ''port''"
  shows
    "(v \<noteq> [] \<and> validate_field L f v = Inr (True, None) \<longrightarrow>
        (\<exists>p. py_int L v = Some p \<and> 1 \<le> p \<and> p \<le> 65535)) \<and>
     (v \<noteq> [] \<and> \<not> (\<exists>p. py_int L v = Some p \<and> 1 \<le> p \<and> p \<le> 65535) \<longrightarrow>
        validate_field L f v =
          Inr (False, Some (label f @
            (if py_int L v = None then '' must be a valid port number''
             else '' must be between 1 and 65535'')))) \<and>
     ((nm, f) \<in> set (manifest_inputs (inputs m)) \<and> map_of inp nm = Some v \<and>
        agent_validate_inputs L m inp = Inr (True, e) \<longrightarrow>
        (\<exists>p. py_int L v = Some p \<and> 1 \<le> p \<and> p \<le> 65535)) \<and>
     ((nm, f) \<in> set (manifest_inputs (inputs m)) \<and> map_of inp nm = Some v \<and>
        \<not> (\<exists>p. py_int L v = Some p \<and> 1 \<le> p \<and> p \<le> 65535) \<longrightarrow>
        agent_check_item L inp nm f =
          Inr (Some ((if py_int L v = None then ''Invalid port: '' else ''Port out of range: '') @ nm)) \<and>
        agent_validate_inputs L m inp \<noteq> Inr (True, e)) \<and>
     (validation f = None \<longrightarrow> validate_field L f ''80'' = Inr (True, None)) \<and>
     validate_field L f ''99999'' = Inr (False, Some (label f @ '' must be between 1 and 65535'')) \<and>
     validate_field L f ''not-a-port'' = Inr (False, Some (label f @ '' must be a valid port number'')) \<and>
     (validation f = None \<longrightarrow> agent_check_item L [(nm, ''80'')] nm f = Inr None) \<and>
     agent_check_item L [(nm, ''99999'')] nm f = Inr (Some (''Port out of range: '' @ nm)) \<and>
     agent_check_item L [(nm, ''not-a-port'')] nm f = Inr (Some (''Invalid port: '' @ nm))"
proof -
  let ?ok = "\<exists>p. py_int L v = Some p \<and> 1 \<le> p \<and> p \<le> 65535"
  have a: "v \<noteq> [] \<and> validate_field L f v = Inr (True, None) \<longrightarrow> ?ok"
    using panel_port_accept[OF assms] by blast
  have b: "v \<noteq> [] \<and> \<not> ?ok \<longrightarrow>
        validate_field L f v =
          Inr (False, Some (label f @
            (if py_int L v = None then '' must be a valid port number''
             else '' must be between 1 and 65535'')))"
    using panel_port_reject[OF assms] by blast
  have c: "(nm, f) \<in> set (manifest_inputs (inputs m)) \<and> map_of inp nm = Some v \<and>
        agent_validate_inputs L m inp = Inr (True, e) \<longrightarrow> ?ok"
    using agent_loop_accept[of L "manifest_inputs (inputs m)" inp e nm f]
      agent_item_port_accept[OF assms, of inp nm v L]
    by (auto simp add: agent_validate_inputs_def)
  have d: "(nm, f) \<in> set (manifest_inputs (inputs m)) \<and> map_of inp nm = Some v \<and> \<not> ?ok \<longrightarrow>
        agent_check_item L inp nm f =
          Inr (Some ((if py_int L v = None then ''Invalid port: '' else ''Port out of range: '') @ nm)) \<and>
        agent_validate_inputs L m inp \<noteq> Inr (True, e)"
    using agent_item_port_reject[OF assms, of inp nm v L] c by blast
  have e1: "validation f = None \<longrightarrow> validate_field L f ''80'' = Inr (True, None)"
    by (simp add: validate_field_def type_check_port[OF assms] py_int_80 and_then_simps
        no_validation_checks)
  have e2: "validate_field L f ''99999'' =
      Inr (False, Some (label f @ '' must be between 1 and 65535''))"
    by (simp add: validate_field_def type_check_port[OF assms] py_int_99999 and_then_simps)
  have e3: "validate_field L f ''not-a-port'' =
      Inr (False, Some (label f @ '' must be a valid port number''))"
    by (simp add: validate_field_def type_check_port[OF assms] py_int_not_a_port and_then_simps)
  have g1: "validation f = None \<longrightarrow> agent_check_item L [(nm, ''80'')] nm f = Inr None"
    by (simp add: agent_check_item_def agent_type_check_port[OF assms] py_int_80
        no_validation_agent_checks)
  have g2: "agent_check_item L [(nm, ''99999'')] nm f = Inr (Some (''Port out of range: '' @ nm))"
    by (simp add: agent_check_item_def agent_type_check_port[OF assms] py_int_99999)
  have g3: "agent_check_item L [(nm, ''not-a-port'')] nm f = Inr (Some (''Invalid port: '' @ nm))"
    by (simp add: agent_check_item_def agent_type_check_port[OF assms] py_int_not_a_port)
  from a b c d e1 e2 e3 g1 g2 g3 show ?thesis by (intro conjI)
qed

theorem port_type_check_witness:
  "\<forall>L :: (int, int) pylib.
     type port_field = ''port'' \<and>
     validate_field L port_field ''80'' = Inr (True, None) \<and>
     (\<exists>p. py_int L ''80'' = Some p \<and> 1 \<le> p \<and> p \<le> 65535) \<and>
     \<not> (\<exists>p. py_int L ''99999'' = Some p \<and> 1 \<le> p \<and> p \<le> 65535) \<and>
     validate_field L port_field ''99999'' = Inr (False, Some ''Port must be between 1 and 65535'') \<and>
     validate_field L port_field ''not-a-port'' =
       Inr (False, Some ''Port must be a valid port number'') \<and>
     agent_validate_inputs L port_manifest [(''port'', ''80'')] = Inr (True, None) \<and>
     agent_validate_inputs L port_manifest [(''port'', ''99999'')] =
       Inr (False, Some ''Port out of range: port'') \<and>
     agent_validate_inputs L port_manifest [(''port'', ''not-a-port'')] =
       Inr (False, Some ''Invalid port: port'')"
proof (intro allI)
  fix L :: "(int, int) pylib"
  have t: "type port_field = ''port''" and n: "name port_field = ''port''"
    and l: "label port_field = ''Port''" and nv: "validation port_field = None"
    and rq: "get_required port_field"
    by (simp_all add: port_field_def get_required_def)
  have mi: "manifest_inputs (inputs port_manifest) = [(''port'', port_field)]"
    by (simp add: port_manifest_def manifest_inputs_def n)
  note T = port_type_check[OF t, of _ L "''port''" port_manifest]
  have p80: "validate_field L port_field ''80'' = Inr (True, None)"
    and a80: "agent_check_item L [(''port'', ''80'')] ''port'' port_field = Inr None"
    using T[of "''80''" "[(''port'', ''80'')]" None] nv by blast+
  have ok80: "\<exists>p. py_int L ''80'' = Some p \<and> 1 \<le> p \<and> p \<le> 65535"
    using T[of "''80''" "[(''port'', ''80'')]" None] p80 by blast
  have bad: "\<not> (\<exists>p. py_int L ''99999'' = Some p \<and> 1 \<le> p \<and> p \<le> 65535)"
    by (simp add: py_int_99999)
  have p9: "validate_field L port_field ''99999'' = Inr (False, Some ''Port must be between 1 and 65535'')"
    and pn: "validate_field L port_field ''not-a-port'' = Inr (False, Some ''Port must be a valid port number'')"
    and a9: "agent_check_item L [(''port'', ''99999'')] ''port'' port_field = Inr (Some ''Port out of range: port'')"
    and an: "agent_check_item L [(''port'', ''not-a-port'')] ''port'' port_field = Inr (Some ''Invalid port: port'')"
    using T[of "''80''" "[(''port'', ''80'')]" None] by (simp_all add: l)
  have r80: "agent_validate_inputs L port_manifest [(''port'', ''80'')] = Inr (True, None)"
    by (simp add: agent_validate_inputs_def mi a80 and_then_simps)
  have r9: "agent_validate_inputs L port_manifest [(''port'', ''99999'')] =
       Inr (False, Some ''Port out of range: port'')"
    by (simp add: agent_validate_inputs_def mi a9 and_then_simps)
  have rn: "agent_validate_inputs L port_manifest [(''port'', ''not-a-port'')] =
       Inr (False, Some ''Invalid port: port'')"
    by (simp add: agent_validate_inputs_def mi an and_then_simps)
  from t p80 ok80 bad p9 pn r80 r9 rn
  show "type port_field = ''port'' \<and>
     validate_field L port_field ''80'' = Inr (True, None) \<and>
     (\<exists>p. py_int L ''80'' = Some p \<and> 1 \<le> p \<and> p \<le> 65535) \<and>
     \<not> (\<exists>p. py_int L ''99999'' = Some p \<and> 1 \<le> p \<and> p \<le> 65535) \<and>
     validate_field L port_field ''99999'' = Inr (False, Some ''Port must be between 1 and 65535'') \<and>
     validate_field L port_field ''not-a-port'' =
       Inr (False, Some ''Port must be a valid port number'') \<and>
     agent_validate_inputs L port_manifest [(''port'', ''80'')] = Inr (True, None) \<and>
     agent_validate_inputs L port_manifest [(''port'', ''99999'')] =
       Inr (False, Some ''Port out of range: port'') \<and>
     agent_validate_inputs L port_manifest [(''port'', ''not-a-port'')] =
       Inr (False, Some ''Invalid port: port'')"
    by (intro conjI)
qed



text \<open>
  C10: for a field with \<open>required = false\<close>, the control plane's \<open>validate_field\<close> accepts the
  empty value whatever the type and the constraints of the field are and whatever the
  library functions would answer, and in \<open>validate_inputs\<close> such a field, left out of the
  inputs or supplied empty, adds no error: the result is that of the manifest without it.
\<close>

theorem optional_empty_shortcut:
  assumes "required f = Some False"
  shows "validate_field L f [] = Inr (True, None) \<and>
     (map_of inp (name f) = None \<or> map_of inp (name f) = Some [] \<longrightarrow>
        validate_inputs L (m\<lparr>inputs := pre @ f # post\<rparr>) inp =
        validate_inputs L (m\<lparr>inputs := pre @ post\<rparr>) inp)"
proof -
  have a: "validate_field L f [] = Inr (True, None)"
    using assms by (simp add: validate_field_def get_required_def)
  have b: "validate_loop L (pre @ f # post) inp [] = validate_loop L (pre @ post) inp []"
    if "map_of inp (name f) = None \<or> map_of inp (name f) = Some []"
    by (simp only: validate_loop_append[of L pre] optional_empty_in_loop[OF assms that])
  from a b show ?thesis by (simp add: validate_inputs_def)
qed

theorem optional_empty_shortcut_witness:
  "\<forall>L :: (int, int) pylib.
     required optional_field = Some False \<and>
     validate_field L optional_field [] = Inr (True, None) \<and>
     map_of [(''port'', ''80'')] (name optional_field) = None \<and>
     validate_inputs L (port_manifest\<lparr>inputs := [port_field] @ optional_field # []\<rparr>)
        [(''port'', ''80'')] =
     validate_inputs L (port_manifest\<lparr>inputs := [port_field] @ []\<rparr>) [(''port'', ''80'')] \<and>
     map_of [(''backup_port'', [])] (name optional_field) = Some [] \<and>
     validate_inputs L (port_manifest\<lparr>inputs := [] @ optional_field # []\<rparr>)
        [(''backup_port'', [])] = Inr (True, [])"
proof (intro allI)
  fix L :: "(int, int) pylib"
  have r: "required optional_field = Some False" and n: "name optional_field = ''backup_port''"
    by (simp_all add: optional_field_def)
  note T = optional_empty_shortcut[OF r, where L = L and m = port_manifest]
  have m1: "map_of [(''port'', ''80'')] (name optional_field) = None"
    and m2: "map_of [(''backup_port'', [])] (name optional_field) = Some []"
    by (simp_all add: n)
  have e: "validate_inputs L (port_manifest\<lparr>inputs := [] @ []\<rparr>) [(''backup_port'', [])] = Inr (True, [])"
    by (simp add: validate_inputs_def)
  from T[where inp = "[(''port'', ''80'')]" and pre = "[port_field]" and post = "[]"]
    T[where inp = "[(''backup_port'', [])]" and pre = "[]" and post = "[]"]
    r m1 m2 e
  show "required optional_field = Some False \<and>
     validate_field L optional_field [] = Inr (True, None) \<and>
     map_of [(''port'', ''80'')] (name optional_field) = None \<and>
     validate_inputs L (port_manifest\<lparr>inputs := [port_field] @ optional_field # []\<rparr>)
        [(''port'', ''80'')] =
     validate_inputs L (port_manifest\<lparr>inputs := [port_field] @ []\<rparr>) [(''port'', ''80'')] \<and>
     map_of [(''backup_port'', [])] (name optional_field) = Some [] \<and>
     validate_inputs L (port_manifest\<lparr>inputs := [] @ optional_field # []\<rparr>)
        [(''backup_port'', [])] = Inr (True, [])"
    by metis
qed

section \<open>The environment of the installer\<close>









section \<open>Signatures\<close>

lemma length_bytes32: "length (bytes32 w) = 4"
  by (simp add: bytes32_def)

lemma length_state_bytes: "length (state_bytes s) = 32"
  by (cases s rule: state_bytes.cases) (simp add: length_bytes32)

lemma length_sha256: "length (sha256 m) = 32"
  by (simp add: sha256_def length_state_bytes)

lemma length_hexdigest: "length (hexdigest bs) = 2 * length bs"
  by (induction bs) (simp_all add: hexdigest_def hex_byte_def)

lemma length_sign: "length (sign secret j) = 64"
  by (simp add: sign_def length_hexdigest hmac_sha256_def Let_def length_sha256)

lemma hex_digit_ascii: "n < 16 \<Longrightarrow> (of_char (hex_digit n) :: nat) < 128"
  by (simp add: hex_digit_def)

lemma byte_nibbles: "unat (b :: byte) div 16 < 16" "unat b mod 16 < 16"
proof -
  have "unat b < 2 ^ 8" using unsigned_less[of b, where ?'a = nat] by simp
  then show "unat b div 16 < 16" by simp
  show "unat b mod 16 < 16" by simp
qed

lemma is_ascii_Nil: "is_ascii []"
  by (simp add: is_ascii_def)

lemma is_ascii_hexdigest: "is_ascii (hexdigest bs)"
  by (induction bs)
     (simp_all add: hexdigest_def hex_byte_def is_ascii_def hex_digit_ascii byte_nibbles)

lemma is_ascii_sign: "is_ascii (sign secret j)"
  by (simp add: sign_def is_ascii_hexdigest)

lemma payload_signature: "payload (j\<lparr>signature := x\<rparr>) = payload j"
  by (simp add: payload_def)

lemma sign_signature: "sign secret (j\<lparr>signature := x\<rparr>) = sign secret j"
  by (simp add: sign_def payload_signature)

lemma validate_signature_signed:
  "validate_signature secret (j\<lparr>signature := Some (sign secret j)\<rparr>) = Inr True"
  by (simp add: validate_signature_def sign_signature compare_digest_def is_ascii_sign)

lemma validate_signature_unsigned:
  "signature j = None \<Longrightarrow> validate_signature secret j = Inr False"
proof -
  have "sign secret j \<noteq> []" using length_sign[of secret j] by auto
  moreover assume "signature j = None"
  ultimately show ?thesis
    by (auto simp add: validate_signature_def Let_def compare_digest_def is_ascii_sign is_ascii_Nil)
qed

lemma validate_signature_create_job:
  "validate_signature secret (create_job secret uuid now app inp server user) = Inr True"
  unfolding create_job_def Let_def by (rule validate_signature_signed)

lemma create_job_fields:
  "job_id (create_job secret uuid now app inp server user) = uuid"
  "app_id (create_job secret uuid now app inp server user) = app"
  "job_inputs (create_job secret uuid now app inp server user) = inp"
  by (simp_all add: create_job_def Let_def)



section \<open>The claims about the executor\<close>

lemma run_installer_result:
  assumes "run_installer W j m r = (Inr r', evs)" "status r = ''failed''"
  shows "result_job_id r' = result_job_id r \<and> (status r' = ''success'' \<or> status r' = ''failed'')"
  using assms
  by (auto simp add: run_installer_def Let_def split: prod.splits sum.splits if_splits)

lemma job_steps_result:
  assumes "job_steps L secret W j r = (Inr r', evs)" "status r = ''failed''"
  shows "result_job_id r' = result_job_id r \<and> (status r' = ''success'' \<or> status r' = ''failed'')"
proof -
  consider
    (rejected) e where "r' = r\<lparr>error := Some e\<rparr>"
  | (ran) m where "run_installer W j m r = (Inr r', evs)"
    using assms(1)
    by (auto simp add: job_steps_def split: sum.splits if_splits prod.splits)
  then show ?thesis
  proof cases
    case rejected
    with assms(2) show ?thesis by simp
  next
    case ran
    from run_installer_result[OF ran assms(2)] show ?thesis .
  qed
qed

lemma initial_result_simps:
  "result_job_id (initial_result j started) = job_id j"
  "status (initial_result j started) = ''failed''"
  "error (initial_result j started) = None"
  "exit_code (initial_result j started) = 1"
  by (simp_all add: initial_result_def)

lemma job_steps_rejected:
  assumes "validate_signature secret j \<noteq> Inr True \<or> validate_installer W (app_id j) \<noteq> Inr True \<or>
     (\<exists>m. load_manifest W (app_id j) = Inr m \<and>
        (\<forall>e. agent_validate_inputs L m (job_inputs j) \<noteq> Inr (True, e)))"
  shows "(\<exists>e. job_steps L secret W j r = (Inl e, [])) \<or>
     (\<exists>msg. job_steps L secret W j r = (Inr (r\<lparr>error := Some msg\<rparr>), []))"
  using assms
  by (auto simp add: job_steps_def split: sum.splits if_splits prod.splits)

lemma py_str_int_124: "py_str_int 124 = ''124''"
  by code_simp

lemma agent_port_80: "agent_validate_inputs L port_manifest [(''port'', ''80'')] = Inr (True, None)"
  by (simp add: port_manifest_def port_field_def agent_eval py_int_80)

lemma timed_out_script:
  assumes "script_exists W app s = Inr True" "chmod W app s = None" "open_log W jid = None"
    "popen W app s env = None" "wait W app s env t = TimeoutExpired"
    "killpg W SIGTERM = None" "killpg W SIGKILL = None"
  shows "execute_script W app s env t jid =
     (Inr (124, ''Execution timed out''),
      [Chmod app s, OpenLog jid, Popen app s env, Wait t, Killpg SIGTERM, Sleep 5, Killpg SIGKILL])"
  using assms by (simp add: execute_script_def on_timeout_def)

text \<open>
  C2 (amended): when the installer runs past \<open>timeout_seconds\<close> (600 when the manifest has
  none) and both signals are sent without an error, \<open>execute_script\<close> sends SIGTERM to the
  process group, sleeps 5 seconds, sends SIGKILL and returns the exit code 124 with the
  output \<open>Execution timed out\<close>; the result of the job has the exit code 124, the error
  \<open>Script exited with code 124\<close> and the status \<open>failed\<close>: the agent has the statuses
  \<open>success\<close> and \<open>failed\<close> only.
\<close>

theorem timeout_result:
  assumes "validate_signature secret j = Inr True"
    and "validate_installer W (app_id j) = Inr True"
    and "load_manifest W (app_id j) = Inr m"
    and "agent_validate_inputs L m (job_inputs j) = Inr (True, e)"
    and "script_exists W (app_id j) (get_install_script m) = Inr True"
    and "chmod W (app_id j) (get_install_script m) = None"
    and "open_log W (job_id j) = None"
    and "popen W (app_id j) (get_install_script m) (prepare_environment W (job_inputs j) m) = None"
    and "wait W (app_id j) (get_install_script m) (prepare_environment W (job_inputs j) m)
           (get_timeout m) = TimeoutExpired"
    and "killpg W SIGTERM = None" and "killpg W SIGKILL = None"
  shows "execute_script W (app_id j) (get_install_script m)
           (prepare_environment W (job_inputs j) m) (get_timeout m) (job_id j) =
         (Inr (124, ''Execution timed out''),
          [Chmod (app_id j) (get_install_script m), OpenLog (job_id j),
           Popen (app_id j) (get_install_script m) (prepare_environment W (job_inputs j) m),
           Wait (get_timeout m), Killpg SIGTERM, Sleep 5, Killpg SIGKILL]) \<and>
         execute_job L secret W started completed j =
         (\<lparr>result_job_id = job_id j, status = ''failed'', exit_code = 124,
           job_output = ''Execution timed out'', started_at = started,
           completed_at = Some completed, error = Some ''Script exited with code 124''\<rparr>,
          [Chmod (app_id j) (get_install_script m), OpenLog (job_id j),
           Popen (app_id j) (get_install_script m) (prepare_environment W (job_inputs j) m),
           Wait (get_timeout m), Killpg SIGTERM, Sleep 5, Killpg SIGKILL])"
proof -
  note s = timed_out_script[OF assms(5-11)]
  have r: "run_installer W j m (initial_result j started) =
      (Inr \<lparr>result_job_id = job_id j, status = ''failed'', exit_code = 124,
           job_output = ''Execution timed out'', started_at = started,
           completed_at = None, error = Some ''Script exited with code 124''\<rparr>,
       [Chmod (app_id j) (get_install_script m), OpenLog (job_id j),
           Popen (app_id j) (get_install_script m) (prepare_environment W (job_inputs j) m),
           Wait (get_timeout m), Killpg SIGTERM, Sleep 5, Killpg SIGKILL])"
    by (simp add: run_installer_def Let_def s initial_result_def py_str_int_124)
  have "job_steps L secret W j (initial_result j started) =
      run_installer W j m (initial_result j started)"
    using assms(1-4) by (simp add: job_steps_def)
  with r s show ?thesis by (simp add: execute_job_def Let_def)
qed

lemma agent_world_simps:
  "environ agent_world = [(''PATH'', ''/usr/bin''), (''SECRET_KEY'', ''change-me-in-production'')]"
  "validate_installer agent_world ''nginx'' = Inr True"
  "validate_installer agent_world ''ssl-app'' = Inr True"
  "validate_installer agent_world ''unknown'' = Inr False"
  "load_manifest agent_world ''nginx'' = Inr port_manifest"
  "load_manifest agent_world ''ssl-app'' = Inr ssl_manifest"
  "script_exists agent_world app s = Inr True"
  "chmod agent_world app s = None"
  "open_log agent_world jid = None"
  "popen agent_world app s env = None"
  "wait agent_world app s env t = TimeoutExpired"
  "killpg agent_world sig = None"
  by (simp_all add: agent_world_def validate_installer_def load_manifest_def)

lemma nginx_job_simps:
  "validate_signature ''change-me-in-production'' nginx_job = Inr True"
  "job_id nginx_job = ''job-1''" "app_id nginx_job = ''nginx''"
  "job_inputs nginx_job = [(''port'', ''80'')]"
  by (simp_all add: nginx_job_def validate_signature_create_job create_job_fields)

lemma nginx_timeout:
  "execute_job L ''change-me-in-production'' agent_world ''t0'' ''t1'' nginx_job =
     (\<lparr>result_job_id = ''job-1'', status = ''failed'', exit_code = 124,
       job_output = ''Execution timed out'', started_at = ''t0'',
       completed_at = Some ''t1'', error = Some ''Script exited with code 124''\<rparr>,
      [Chmod ''nginx'' ''install.sh'', OpenLog ''job-1'',
       Popen ''nginx'' ''install.sh''
         (prepare_environment agent_world [(''port'', ''80'')] port_manifest),
       Wait 600, Killpg SIGTERM, Sleep 5, Killpg SIGKILL])"
proof -
  have g: "get_install_script port_manifest = ''install.sh''" "get_timeout port_manifest = 600"
    by (simp_all add: get_install_script_def get_timeout_def port_manifest_def)
  have r: "run_installer agent_world nginx_job port_manifest (initial_result nginx_job ''t0'') =
      (Inr \<lparr>result_job_id = ''job-1'', status = ''failed'', exit_code = 124,
           job_output = ''Execution timed out'', started_at = ''t0'',
           completed_at = None, error = Some ''Script exited with code 124''\<rparr>,
       [Chmod ''nginx'' ''install.sh'', OpenLog ''job-1'',
        Popen ''nginx'' ''install.sh''
          (prepare_environment agent_world [(''port'', ''80'')] port_manifest),
        Wait 600, Killpg SIGTERM, Sleep 5, Killpg SIGKILL])"
    by (simp add: run_installer_def Let_def g nginx_job_simps initial_result_def py_str_int_124
        timed_out_script agent_world_simps)
  have "job_steps L ''change-me-in-production'' agent_world nginx_job (initial_result nginx_job ''t0'') =
      run_installer agent_world nginx_job port_manifest (initial_result nginx_job ''t0'')"
    by (simp add: job_steps_def nginx_job_simps agent_world_simps agent_port_80)
  with r show ?thesis by (simp add: execute_job_def Let_def)
qed

text \<open>
  C2 (as stated, refuted): an installer that runs past the timeout of the manifest, with
  both signals delivered; the result has the exit code 124 and its status is \<open>failed\<close>,
  not \<open>timeout\<close>.
\<close>

theorem timeout_status_counterexample:
  "\<forall>L :: (int, int) pylib.
     exit_code (fst (execute_job L ''change-me-in-production'' agent_world ''t0'' ''t1'' nginx_job)) = 124 \<and>
     status (fst (execute_job L ''change-me-in-production'' agent_world ''t0'' ''t1'' nginx_job)) = ''failed'' \<and>
     status (fst (execute_job L ''change-me-in-production'' agent_world ''t0'' ''t1'' nginx_job)) \<noteq> ''timeout''"
  by (simp add: nginx_timeout)

theorem timeout_result_witness:
  "\<forall>L :: (int, int) pylib.
     wait agent_world ''nginx'' ''install.sh''
       (prepare_environment agent_world [(''port'', ''80'')] port_manifest) 600 = TimeoutExpired \<and>
     execute_job L ''change-me-in-production'' agent_world ''t0'' ''t1'' nginx_job =
     (\<lparr>result_job_id = ''job-1'', status = ''failed'', exit_code = 124,
       job_output = ''Execution timed out'', started_at = ''t0'',
       completed_at = Some ''t1'', error = Some ''Script exited with code 124''\<rparr>,
      [Chmod ''nginx'' ''install.sh'', OpenLog ''job-1'',
       Popen ''nginx'' ''install.sh''
         (prepare_environment agent_world [(''port'', ''80'')] port_manifest),
       Wait 600, Killpg SIGTERM, Sleep 5, Killpg SIGKILL])"
proof (intro allI)
  fix L :: "(int, int) pylib"
  have g: "get_install_script port_manifest = ''install.sh''" "get_timeout port_manifest = 600"
    by (simp_all add: get_install_script_def get_timeout_def port_manifest_def)
  have v: "agent_validate_inputs L port_manifest (job_inputs nginx_job) = Inr (True, None)"
    by (simp add: nginx_job_simps agent_port_80)
  have l: "load_manifest agent_world (app_id nginx_job) = Inr port_manifest"
    by (simp add: nginx_job_simps agent_world_simps)
  have i: "validate_installer agent_world (app_id nginx_job) = Inr True"
    by (simp add: nginx_job_simps agent_world_simps)
  note T = timeout_result[OF nginx_job_simps(1) i l v agent_world_simps(7-12),
      where started = "''t0''" and completed = "''t1''"]
  from T show "wait agent_world ''nginx'' ''install.sh''
       (prepare_environment agent_world [(''port'', ''80'')] port_manifest) 600 = TimeoutExpired \<and>
     execute_job L ''change-me-in-production'' agent_world ''t0'' ''t1'' nginx_job =
     (\<lparr>result_job_id = ''job-1'', status = ''failed'', exit_code = 124,
       job_output = ''Execution timed out'', started_at = ''t0'',
       completed_at = Some ''t1'', error = Some ''Script exited with code 124''\<rparr>,
      [Chmod ''nginx'' ''install.sh'', OpenLog ''job-1'',
       Popen ''nginx'' ''install.sh''
         (prepare_environment agent_world [(''port'', ''80'')] port_manifest),
       Wait 600, Killpg SIGTERM, Sleep 5, Killpg SIGKILL])"
    by (simp add: g nginx_job_simps agent_world_simps)
qed

text \<open>
  C5: a job whose signature does not verify (the comparison is false or raises), whose
  installer is not found to have a manifest (there is none, or the lookup raises), or whose
  inputs the agent's validator does not accept (it returns an error or raises) is not
  executed: \<open>execute_job\<close> does nothing to the machine, and returns a result with the
  status \<open>failed\<close> and an error.
\<close>

theorem rejected_job_never_executes:
  assumes "validate_signature secret j \<noteq> Inr True \<or> validate_installer W (app_id j) \<noteq> Inr True \<or>
     (\<exists>m. load_manifest W (app_id j) = Inr m \<and>
        (\<forall>e. agent_validate_inputs L m (job_inputs j) \<noteq> Inr (True, e)))"
  shows "snd (execute_job L secret W started completed j) = [] \<and>
     status (fst (execute_job L secret W started completed j)) = ''failed'' \<and>
     exit_code (fst (execute_job L secret W started completed j)) = 1 \<and>
     error (fst (execute_job L secret W started completed j)) \<noteq> None \<and>
     completed_at (fst (execute_job L secret W started completed j)) = Some completed"
  using job_steps_rejected[OF assms, of "initial_result j started"]
  by (auto simp add: execute_job_def Let_def initial_result_simps)

theorem rejected_job_never_executes_witness:
  "\<forall>L :: (int, int) pylib.
     validate_signature ''change-me-in-production'' (nginx_job\<lparr>signature := None\<rparr>) \<noteq> Inr True \<and>
     execute_job L ''change-me-in-production'' agent_world ''t0'' ''t1'' (nginx_job\<lparr>signature := None\<rparr>) =
       (\<lparr>result_job_id = ''job-1'', status = ''failed'', exit_code = 1, job_output = [],
         started_at = ''t0'', completed_at = Some ''t1'', error = Some ''Invalid signature''\<rparr>, []) \<and>
     validate_installer agent_world (app_id unknown_job) \<noteq> Inr True \<and>
     execute_job L ''change-me-in-production'' agent_world ''t0'' ''t1'' unknown_job =
       (\<lparr>result_job_id = ''job-2'', status = ''failed'', exit_code = 1, job_output = [],
         started_at = ''t0'', completed_at = Some ''t1'',
         error = Some ''Installer not whitelisted: unknown''\<rparr>, []) \<and>
     agent_validate_inputs L ssl_manifest (job_inputs ssl_job) =
       Inr (False, Some ''Required field missing: ssl_port'') \<and>
     execute_job L ''change-me-in-production'' agent_world ''t0'' ''t1'' ssl_job =
       (\<lparr>result_job_id = ''job-3'', status = ''failed'', exit_code = 1, job_output = [],
         started_at = ''t0'', completed_at = Some ''t1'',
         error = Some ''Input validation failed: Required field missing: ssl_port''\<rparr>, [])"
proof (intro allI)
  fix L :: "(int, int) pylib"
  let ?s = "''change-me-in-production''"
  let ?u = "nginx_job\<lparr>signature := None\<rparr>"
  have u: "validate_signature ?s ?u = Inr False"
    by (rule validate_signature_unsigned) simp
  have uj: "job_id ?u = ''job-1''" by (simp add: nginx_job_simps)
  have k: "validate_signature ?s unknown_job = Inr True" "job_id unknown_job = ''job-2''"
    "app_id unknown_job = ''unknown''"
    by (simp_all add: unknown_job_def validate_signature_create_job create_job_fields)
  have s: "validate_signature ?s ssl_job = Inr True" "job_id ssl_job = ''job-3''"
    "app_id ssl_job = ''ssl-app''" "job_inputs ssl_job = [(''enable_ssl'', ''false'')]"
    by (simp_all add: ssl_job_def validate_signature_create_job create_job_fields)
  have h1: "validate_signature ?s ?u \<noteq> Inr True" using u by simp
  have h2: "validate_installer agent_world (app_id unknown_job) \<noteq> Inr True"
    by (simp add: k agent_world_simps)
  have h3: "agent_validate_inputs L ssl_manifest (job_inputs ssl_job) =
       Inr (False, Some ''Required field missing: ssl_port'')"
    by (simp add: s agent_ssl_disabled)
  have h3': "\<exists>m. load_manifest agent_world (app_id ssl_job) = Inr m \<and>
        (\<forall>e. agent_validate_inputs L m (job_inputs ssl_job) \<noteq> Inr (True, e))"
    using h3 by (simp add: s(3) agent_world_simps)
  note T1 = rejected_job_never_executes[of ?s ?u agent_world L "''t0''" "''t1''"]
  note T2 = rejected_job_never_executes[of ?s unknown_job agent_world L "''t0''" "''t1''"]
  note T3 = rejected_job_never_executes[of ?s ssl_job agent_world L "''t0''" "''t1''"]
  have e1: "snd (execute_job L ?s agent_world ''t0'' ''t1'' ?u) = []" using T1 h1 by blast
  have e2: "snd (execute_job L ?s agent_world ''t0'' ''t1'' unknown_job) = []" using T2 h2 by blast
  have e3: "snd (execute_job L ?s agent_world ''t0'' ''t1'' ssl_job) = []" using T3 h3' by blast
  have r1: "fst (execute_job L ?s agent_world ''t0'' ''t1'' ?u) =
      \<lparr>result_job_id = ''job-1'', status = ''failed'', exit_code = 1, job_output = [],
         started_at = ''t0'', completed_at = Some ''t1'', error = Some ''Invalid signature''\<rparr>"
    by (simp add: execute_job_def Let_def job_steps_def u initial_result_def uj)
  have r2: "fst (execute_job L ?s agent_world ''t0'' ''t1'' unknown_job) =
      \<lparr>result_job_id = ''job-2'', status = ''failed'', exit_code = 1, job_output = [],
         started_at = ''t0'', completed_at = Some ''t1'',
         error = Some ''Installer not whitelisted: unknown''\<rparr>"
    by (simp add: execute_job_def Let_def job_steps_def k h2 initial_result_def agent_world_simps)
  have r3: "fst (execute_job L ?s agent_world ''t0'' ''t1'' ssl_job) =
      \<lparr>result_job_id = ''job-3'', status = ''failed'', exit_code = 1, job_output = [],
         started_at = ''t0'', completed_at = Some ''t1'',
         error = Some ''Input validation failed: Required field missing: ssl_port''\<rparr>"
    by (simp add: execute_job_def Let_def job_steps_def s h3[unfolded s] initial_result_def
        agent_world_simps str_optional_def)
  from h1 h2 h3 e1 e2 e3 r1 r2 r3
  show "validate_signature ''change-me-in-production'' (nginx_job\<lparr>signature := None\<rparr>) \<noteq> Inr True \<and>
     execute_job L ''change-me-in-production'' agent_world ''t0'' ''t1'' (nginx_job\<lparr>signature := None\<rparr>) =
       (\<lparr>result_job_id = ''job-1'', status = ''failed'', exit_code = 1, job_output = [],
         started_at = ''t0'', completed_at = Some ''t1'', error = Some ''Invalid signature''\<rparr>, []) \<and>
     validate_installer agent_world (app_id unknown_job) \<noteq> Inr True \<and>
     execute_job L ''change-me-in-production'' agent_world ''t0'' ''t1'' unknown_job =
       (\<lparr>result_job_id = ''job-2'', status = ''failed'', exit_code = 1, job_output = [],
         started_at = ''t0'', completed_at = Some ''t1'',
         error = Some ''Installer not whitelisted: unknown''\<rparr>, []) \<and>
     agent_validate_inputs L ssl_manifest (job_inputs ssl_job) =
       Inr (False, Some ''Required field missing: ssl_port'') \<and>
     execute_job L ''change-me-in-production'' agent_world ''t0'' ''t1'' ssl_job =
       (\<lparr>result_job_id = ''job-3'', status = ''failed'', exit_code = 1, job_output = [],
         started_at = ''t0'', completed_at = Some ''t1'',
         error = Some ''Input validation failed: Required field missing: ssl_port''\<rparr>, [])"
    by (simp add: prod_eq_iff)
qed




text \<open>
  C9: \<open>execute_job\<close> returns a result on every path: an exception of the signature check, of
  the lookup of the installer, of \<open>load_manifest\<close>, of the validator or of \<open>execute_script\<close>
  is caught and becomes the error of the result. The result has the \<open>job_id\<close> of the job, the status \<open>success\<close> or \<open>failed\<close>, and
  its \<open>completed_at\<close> is set.
\<close>

theorem execute_job_always_returns:
  "result_job_id (fst (execute_job L secret W started completed j)) = job_id j \<and>
   (status (fst (execute_job L secret W started completed j)) = ''success'' \<or>
    status (fst (execute_job L secret W started completed j)) = ''failed'') \<and>
   completed_at (fst (execute_job L secret W started completed j)) = Some completed \<and>
   (job_steps L secret W j (initial_result j started) = (Inl e, evs) \<longrightarrow>
      execute_job L secret W started completed j =
        (\<lparr>result_job_id = job_id j, status = ''failed'', exit_code = 1, job_output = [],
          started_at = started, completed_at = Some completed, error = Some (str_exn e)\<rparr>, evs))"
proof -
  have a: "result_job_id (fst (execute_job L secret W started completed j)) = job_id j \<and>
   (status (fst (execute_job L secret W started completed j)) = ''success'' \<or>
    status (fst (execute_job L secret W started completed j)) = ''failed'') \<and>
   completed_at (fst (execute_job L secret W started completed j)) = Some completed"
  proof (cases "job_steps L secret W j (initial_result j started)")
    case (Pair res evs')
    show ?thesis
    proof (cases res)
      case (Inl e')
      with Pair show ?thesis
        by (simp add: execute_job_def Let_def initial_result_simps)
    next
      case (Inr r')
      with Pair job_steps_result[of L secret W j "initial_result j started" r' evs']
      show ?thesis
        by (simp add: execute_job_def Let_def initial_result_simps)
    qed
  qed
  have b: "execute_job L secret W started completed j =
        (\<lparr>result_job_id = job_id j, status = ''failed'', exit_code = 1, job_output = [],
          started_at = started, completed_at = Some completed, error = Some (str_exn e)\<rparr>, evs)"
    if "job_steps L secret W j (initial_result j started) = (Inl e, evs)"
    using that by (simp add: execute_job_def Let_def initial_result_def)
  from a b show ?thesis by blast
qed

theorem execute_job_always_returns_witness:
  "\<forall>L :: (int, int) pylib.
     job_steps L ''change-me-in-production'' broken_manifest_world nginx_job
        (initial_result nginx_job ''t0'') =
       (Inl (Raised ''mapping values are not allowed here''), []) \<and>
     execute_job L ''change-me-in-production'' broken_manifest_world ''t0'' ''t1'' nginx_job =
       (\<lparr>result_job_id = ''job-1'', status = ''failed'', exit_code = 1, job_output = [],
         started_at = ''t0'', completed_at = Some ''t1'',
         error = Some ''mapping values are not allowed here''\<rparr>, []) \<and>
     job_steps L ''change-me-in-production'' read_only_world nginx_job
        (initial_result nginx_job ''t0'') =
       (Inl (Raised ''Operation not permitted''), [Chmod ''nginx'' ''install.sh'']) \<and>
     execute_job L ''change-me-in-production'' read_only_world ''t0'' ''t1'' nginx_job =
       (\<lparr>result_job_id = ''job-1'', status = ''failed'', exit_code = 1, job_output = [],
         started_at = ''t0'', completed_at = Some ''t1'',
         error = Some ''Operation not permitted''\<rparr>, [Chmod ''nginx'' ''install.sh''])"
proof (intro allI)
  fix L :: "(int, int) pylib"
  let ?s = "''change-me-in-production''"
  have g: "get_install_script port_manifest = ''install.sh''" "get_timeout port_manifest = 600"
    by (simp_all add: get_install_script_def get_timeout_def port_manifest_def)
  have w1: "validate_installer broken_manifest_world ''nginx'' = Inr True"
    "load_manifest broken_manifest_world ''nginx'' = Inl (Raised ''mapping values are not allowed here'')"
    by (simp_all add: broken_manifest_world_def agent_world_def validate_installer_def load_manifest_def)
  have w2: "validate_installer read_only_world ''nginx'' = Inr True"
    "load_manifest read_only_world ''nginx'' = Inr port_manifest"
    "script_exists read_only_world ''nginx'' ''install.sh'' = Inr True"
    "chmod read_only_world ''nginx'' ''install.sh'' = Some (Raised ''Operation not permitted'')"
    by (simp_all add: read_only_world_def agent_world_def validate_installer_def load_manifest_def)
  have s1: "job_steps L ?s broken_manifest_world nginx_job (initial_result nginx_job ''t0'') =
       (Inl (Raised ''mapping values are not allowed here''), [])"
    by (simp add: job_steps_def nginx_job_simps w1)
  have s2: "job_steps L ?s read_only_world nginx_job (initial_result nginx_job ''t0'') =
       (Inl (Raised ''Operation not permitted''), [Chmod ''nginx'' ''install.sh''])"
    by (simp add: job_steps_def nginx_job_simps w2 agent_port_80 run_installer_def Let_def g
        execute_script_def)
  note T1 = execute_job_always_returns[of L ?s broken_manifest_world "''t0''" "''t1''" nginx_job
      "Raised ''mapping values are not allowed here''" "[]"]
  note T2 = execute_job_always_returns[of L ?s read_only_world "''t0''" "''t1''" nginx_job
      "Raised ''Operation not permitted''" "[Chmod ''nginx'' ''install.sh'']"]
  from T1 s1 have r1: "execute_job L ?s broken_manifest_world ''t0'' ''t1'' nginx_job =
       (\<lparr>result_job_id = job_id nginx_job, status = ''failed'', exit_code = 1, job_output = [],
         started_at = ''t0'', completed_at = Some ''t1'',
         error = Some (str_exn (Raised ''mapping values are not allowed here''))\<rparr>, [])"
    by blast
  from T2 s2 have r2: "execute_job L ?s read_only_world ''t0'' ''t1'' nginx_job =
       (\<lparr>result_job_id = job_id nginx_job, status = ''failed'', exit_code = 1, job_output = [],
         started_at = ''t0'', completed_at = Some ''t1'',
         error = Some (str_exn (Raised ''Operation not permitted''))\<rparr>,
        [Chmod ''nginx'' ''install.sh''])"
    by blast
  from s1 s2 r1 r2
  show "job_steps L ''change-me-in-production'' broken_manifest_world nginx_job
        (initial_result nginx_job ''t0'') =
       (Inl (Raised ''mapping values are not allowed here''), []) \<and>
     execute_job L ''change-me-in-production'' broken_manifest_world ''t0'' ''t1'' nginx_job =
       (\<lparr>result_job_id = ''job-1'', status = ''failed'', exit_code = 1, job_output = [],
         started_at = ''t0'', completed_at = Some ''t1'',
         error = Some ''mapping values are not allowed here''\<rparr>, []) \<and>
     job_steps L ''change-me-in-production'' read_only_world nginx_job
        (initial_result nginx_job ''t0'') =
       (Inl (Raised ''Operation not permitted''), [Chmod ''nginx'' ''install.sh'']) \<and>
     execute_job L ''change-me-in-production'' read_only_world ''t0'' ''t1'' nginx_job =
       (\<lparr>result_job_id = ''job-1'', status = ''failed'', exit_code = 1, job_output = [],
         started_at = ''t0'', completed_at = Some ''t1'',
         error = Some ''Operation not permitted''\<rparr>, [Chmod ''nginx'' ''install.sh''])"
    by (simp add: str_exn_def nginx_job_simps)
qed

section \<open>The JSON text of a job determines the job\<close>

lemma hex_value_hex_digit: "k < 16 \<Longrightarrow> hex_value (hex_digit k) = k"
  by (simp add: hex_value_def hex_digit_def)

lemma char_of_nibbles:
  "char_of (16 * hex_value (hex_digit (of_char c div 16)) + hex_value (hex_digit (of_char c mod 16))) = c"
proof -
  have "(of_char c :: nat) < 16 * 16" by simp
  then have d: "(of_char c :: nat) div 16 < 16" by (rule less_mult_imp_div_less)
  have m: "(of_char c :: nat) mod 16 < 16" by simp
  have "16 * ((of_char c :: nat) div 16) + of_char c mod 16 = of_char c" by simp
  then show ?thesis
    unfolding hex_value_hex_digit[OF d] hex_value_hex_digit[OF m] by simp
qed

lemma json_unescape_escape: "json_unescape (json_escape c @ r) = Some (c, r)"
  by (simp add: json_escape_def backslash_def short_escape_def char_of_nibbles)

lemma json_escape_cancel:
  "json_escape c @ r = json_escape d @ r' \<longleftrightarrow> c = d \<and> r = r'"
proof
  assume "json_escape c @ r = json_escape d @ r'"
  then have "json_unescape (json_escape c @ r) = json_unescape (json_escape d @ r')" by simp
  then show "c = d \<and> r = r'" by (simp add: json_unescape_escape)
qed simp

lemma json_escape_not_quote: "\<exists>x xs. json_escape c = x # xs \<and> x \<noteq> CHR 0x22"
  by (simp add: json_escape_def backslash_def)

lemma json_body_cancel:
  "concat (map json_escape s) @ CHR 0x22 # r = concat (map json_escape t) @ CHR 0x22 # r'
     \<Longrightarrow> s = t \<and> r = r'"
proof (induction s arbitrary: t)
  case Nil
  show ?case
  proof (cases t)
    case Nil
    with Nil.prems show ?thesis by simp
  next
    case (Cons d t')
    obtain x xs where "json_escape d = x # xs" "x \<noteq> CHR 0x22"
      using json_escape_not_quote by blast
    with Nil.prems Cons show ?thesis by simp
  qed
next
  case (Cons c s)
  show ?case
  proof (cases t)
    case Nil
    obtain x xs where "json_escape c = x # xs" "x \<noteq> CHR 0x22"
      using json_escape_not_quote by blast
    with Cons.prems Nil show ?thesis by simp
  next
    case (Cons d t')
    with Cons.prems have "json_escape c @ (concat (map json_escape s) @ CHR 0x22 # r) =
        json_escape d @ (concat (map json_escape t') @ CHR 0x22 # r')"
      by simp
    then have "c = d" and "concat (map json_escape s) @ CHR 0x22 # r =
        concat (map json_escape t') @ CHR 0x22 # r'"
      by (simp_all add: json_escape_cancel)
    with Cons.IH[of t'] Cons show ?thesis by simp
  qed
qed

lemma json_string_cancel [simp]:
  "json_string s @ r = json_string t @ r' \<longleftrightarrow> s = t \<and> r = r'"
proof
  assume "json_string s @ r = json_string t @ r'"
  then have "concat (map json_escape s) @ CHR 0x22 # r = concat (map json_escape t) @ CHR 0x22 # r'"
    by (simp add: json_string_def)
  then show "s = t \<and> r = r'" by (rule json_body_cancel)
qed simp

lemma json_string_inject [simp]: "json_string s = json_string t \<longleftrightarrow> s = t"
  using json_string_cancel[of s "[]" t "[]"] by simp

lemma json_string_quote: "\<exists>xs. json_string s = CHR 0x22 # xs"
  by (simp add: json_string_def)

lemma json_item_cancel [simp]:
  "json_item kv @ r = json_item kv' @ r' \<longleftrightarrow> kv = kv' \<and> r = r'"
  by (cases kv; cases kv') (auto simp add: json_item_def)

lemma json_item_quote: "\<exists>xs. json_item kv = CHR 0x22 # xs"
  using json_string_quote[of "fst kv"] by (auto simp add: json_item_def)

lemma json_items_cancel:
  "py_join '', '' (map json_item xs) @ CHR ''}'' # r =
   py_join '', '' (map json_item ys) @ CHR ''}'' # r' \<Longrightarrow> xs = ys \<and> r = r'"
proof (induction xs arbitrary: ys)
  case Nil
  show ?case
  proof (cases ys)
    case Nil
    with Nil.prems show ?thesis by simp
  next
    case (Cons kv' ys')
    obtain zs where "json_item kv' = CHR 0x22 # zs" using json_item_quote by blast
    with Nil.prems Cons show ?thesis by (cases ys') simp_all
  qed
next
  case (Cons kv xs)
  show ?case
  proof (cases ys)
    case Nil
    obtain zs where "json_item kv = CHR 0x22 # zs" using json_item_quote by blast
    with Cons.prems Nil show ?thesis by (cases xs) simp_all
  next
    case ys: (Cons kv' ys')
    show ?thesis
    proof (cases xs)
      case Nil
      show ?thesis
      proof (cases ys')
        case Nil
        with Cons.prems ys \<open>xs = []\<close> show ?thesis by simp
      next
        case (Cons b bs)
        with Cons.prems ys \<open>xs = []\<close> show ?thesis by simp
      qed
    next
      case xs: (Cons a as)
      show ?thesis
      proof (cases ys')
        case Nil
        with Cons.prems ys xs show ?thesis by simp
      next
        case (Cons b bs)
        with Cons.prems ys xs have "kv = kv'" and
          "py_join '', '' (map json_item xs) @ CHR ''}'' # r =
           py_join '', '' (map json_item ys') @ CHR ''}'' # r'"
          by simp_all
        with Cons.IH[of ys'] ys show ?thesis by simp
      qed
    qed
  qed
qed

lemma json_dict_cancel [simp]:
  "json_dict d @ r = json_dict d' @ r' \<longleftrightarrow> sort_key fst d = sort_key fst d' \<and> r = r'"
proof
  assume "json_dict d @ r = json_dict d' @ r'"
  then have "py_join '', '' (map json_item (sort_key fst d)) @ CHR ''}'' # r =
      py_join '', '' (map json_item (sort_key fst d')) @ CHR ''}'' # r'"
    by (simp add: json_dict_def)
  then show "sort_key fst d = sort_key fst d' \<and> r = r'" by (rule json_items_cancel)
qed (simp add: json_dict_def)




section \<open>The claim about signatures\<close>





end
